theory Spec2Isabelle
  imports Main "HOL-Library.Sublist"
begin

section \<open>JavaScript strings and numbers\<close>

text \<open>
  A JavaScript string is modelled as a \<^typ>\<open>string\<close>, one \<^typ>\<open>char\<close> per code unit; the
  model covers strings whose code units are below 256. A property that may be
  \<^verbatim>\<open>undefined\<close> or \<^verbatim>\<open>null\<close> is an \<open>option\<close>. Identifiers of the source system are
  JSON numbers, modelled as \<^typ>\<open>nat\<close>.
\<close>

definition nl :: char where
  "nl = CHR 0x0A"

text \<open>\<^verbatim>\<open>String(n)\<close> and template interpolation of a non-negative integer.\<close>

fun show_nat :: "nat \<Rightarrow> string" where
  "show_nat n =
     (if n < 10 then [char_of (48 + n)]
      else show_nat (n div 10) @ [char_of (48 + n mod 10)])"

declare show_nat.simps [simp del]

text \<open>The class \<^verbatim>\<open>\d\<close> of a regular expression.\<close>

definition is_digit :: "char \<Rightarrow> bool" where
  "is_digit c = (48 \<le> (of_char c :: nat) \<and> (of_char c :: nat) \<le> 57)"

text \<open>The code units below 256 that \<^verbatim>\<open>String.prototype.trim\<close> removes.\<close>

definition is_space :: "char \<Rightarrow> bool" where
  "is_space c = (of_char c \<in> {9, 10, 11, 12, 13, 32, 160 :: nat})"

definition trim :: "string \<Rightarrow> string" where
  "trim s = rev (dropWhile is_space (rev (dropWhile is_space s)))"

text \<open>\<^verbatim>\<open>String.prototype.toLowerCase\<close> on code units below 256.\<close>

definition lower_char :: "char \<Rightarrow> char" where
  "lower_char c =
     (let n = (of_char c :: nat)
      in if (65 \<le> n \<and> n \<le> 90) \<or> (192 \<le> n \<and> n \<le> 222 \<and> n \<noteq> 215)
         then char_of (n + 32) else c)"

definition toLowerCase :: "string \<Rightarrow> string" where
  "toLowerCase s = map lower_char s"

fun strip_prefix :: "string \<Rightarrow> string \<Rightarrow> string option" where
  "strip_prefix [] s = Some s"
| "strip_prefix (p # ps) [] = None"
| "strip_prefix (p # ps) (c # cs) = (if p = c then strip_prefix ps cs else None)"

text \<open>\<^verbatim>\<open>s.includes(sub)\<close>.\<close>

fun str_includes :: "string \<Rightarrow> string \<Rightarrow> bool" where
  "str_includes [] sub = (sub = [])"
| "str_includes (c # cs) sub = (strip_prefix sub (c # cs) \<noteq> None \<or> str_includes cs sub)"

text \<open>
  \<^verbatim>\<open>s.match(/P(C+)/)\<close> for a literal \<open>P\<close> and a character class \<open>C\<close>: the leftmost
  position where \<open>P\<close> is followed by at least one character of the class; the capture
  group is the longest run of such characters.
\<close>

fun match_after :: "string \<Rightarrow> (char \<Rightarrow> bool) \<Rightarrow> string \<Rightarrow> string option" where
  "match_after P C [] = None"
| "match_after P C (c # cs) =
     (case strip_prefix P (c # cs) of
        None \<Rightarrow> match_after P C cs
      | Some rest \<Rightarrow>
          (if takeWhile C rest \<noteq> [] then Some (takeWhile C rest)
           else match_after P C cs))"

section \<open>Card mapper\<close>

record person =
  p_id :: nat
  p_name :: string
  p_email_address :: "string option"

record bc_step =
  s_content :: "string option"
  s_title :: "string option"
  s_completed :: bool
  s_assignee :: "person option"

record bc_parent =
  par_id :: nat
  par_title :: string

record bc_card =
  c_id :: nat
  c_title :: string
  c_content :: "string option"
  c_assignees :: "person list"
  c_steps :: "bc_step list"
  c_parent :: "bc_parent option"
  c_completed :: bool
  c_comments_count :: nat

record user_mapping =
  fizzy_id :: "string option"
  fizzy_name :: "string option"

record column_action =
  a_type :: string
  a_target :: "string option"

record fizzy_card_data =
  fc_title :: string
  fc_description :: string
  fc_status :: string

record unmapped_assignee =
  ua_id :: nat
  ua_name :: string
  ua_email :: "string option"

record fizzy_step =
  fs_title :: "string option"
  fs_completed :: bool
  fs_had_assignee :: "string option"

record unmapped_step_assignee =
  usa_step_title :: "string option"
  usa_assignee_id :: nat
  usa_assignee_name :: string
  usa_assignee_email :: "string option"

record card_metadata =
  md_basecamp_id :: nat
  md_basecamp_parent_id :: "nat option"
  md_basecamp_parent_title :: "string option"
  md_column_action :: "column_action option"
  md_assignee_ids :: "string list"
  md_unmapped_assignees :: "unmapped_assignee list"
  md_steps :: "fizzy_step list"
  md_unmapped_step_assignees :: "unmapped_step_assignee list"
  md_completed :: bool
  md_comments_count :: nat

record mapped_card =
  mc_card :: fizzy_card_data
  mc_metadata :: card_metadata

definition MAX_TITLE_LENGTH :: nat where
  "MAX_TITLE_LENGTH = 255"

text \<open>Truthiness of an optional string: defined and not empty.\<close>

definition truthy :: "string option \<Rightarrow> bool" where
  "truthy v = (case v of None \<Rightarrow> False | Some s \<Rightarrow> s \<noteq> [])"

text \<open>\<^verbatim>\<open>a || b\<close> on optional strings.\<close>

definition or_else :: "string option \<Rightarrow> string option \<Rightarrow> string option" where
  "or_else a b = (if truthy a then a else b)"

definition convertBasecampToFizzyHTML :: "string option \<Rightarrow> string" where
  "convertBasecampToFizzyHTML html = (if \<not> truthy html then [] else trim (the html))"

text \<open>The mapping found for a user is usable when it is there and its \<open>fizzy_id\<close> is truthy.\<close>

definition mapped_user :: "(string \<rightharpoonup> user_mapping) \<Rightarrow> nat \<Rightarrow> user_mapping option" where
  "mapped_user userMappings uid =
     (case userMappings (show_nat uid) of
        None \<Rightarrow> None
      | Some m \<Rightarrow> if truthy (fizzy_id m) then Some m else None)"

fun mapAssignees ::
  "person list \<Rightarrow> (string \<rightharpoonup> user_mapping) \<Rightarrow> string list \<times> unmapped_assignee list" where
  "mapAssignees [] um = ([], [])"
| "mapAssignees (a # as) um =
     (let (mapped, unmapped) = mapAssignees as um
      in case mapped_user um (p_id a) of
           Some m \<Rightarrow> (the (fizzy_id m) # mapped, unmapped)
         | None \<Rightarrow>
             (mapped,
              \<lparr>ua_id = p_id a, ua_name = p_name a, ua_email = p_email_address a\<rparr> # unmapped))"

fun mapSteps ::
  "bc_step list \<Rightarrow> (string \<rightharpoonup> user_mapping) \<Rightarrow> fizzy_step list \<times> unmapped_step_assignee list" where
  "mapSteps [] um = ([], [])"
| "mapSteps (s # ss) um =
     (let (mapped, unmappedAssignees) = mapSteps ss um;
          title = or_else (s_content s) (s_title s)
      in case s_assignee s of
           None \<Rightarrow>
             (\<lparr>fs_title = title, fs_completed = s_completed s, fs_had_assignee = None\<rparr> # mapped,
              unmappedAssignees)
         | Some a \<Rightarrow>
             (case mapped_user um (p_id a) of
                None \<Rightarrow>
                  (\<lparr>fs_title = title, fs_completed = s_completed s, fs_had_assignee = None\<rparr>
                     # mapped,
                   \<lparr>usa_step_title = title, usa_assignee_id = p_id a,
                    usa_assignee_name = p_name a, usa_assignee_email = p_email_address a\<rparr>
                     # unmappedAssignees)
              | Some m \<Rightarrow>
                  (\<lparr>fs_title = title, fs_completed = s_completed s,
                    fs_had_assignee = fizzy_name m\<rparr> # mapped,
                   unmappedAssignees)))"

definition divider :: string where
  "divider = [nl, nl] @ ''---'' @ [nl, nl]"

definition basecampMarker :: "nat \<Rightarrow> string" where
  "basecampMarker n = ''#basecamp-id-'' @ show_nat n"

definition overflow_title :: "string \<Rightarrow> string" where
  "overflow_title t = (if length t > MAX_TITLE_LENGTH then take MAX_TITLE_LENGTH t else t)"

definition overflow_description :: "string \<Rightarrow> string \<Rightarrow> string" where
  "overflow_description t description =
     (if length t > MAX_TITLE_LENGTH then
        (if description \<noteq> [] then drop MAX_TITLE_LENGTH t @ divider @ description
         else drop MAX_TITLE_LENGTH t)
      else description)"

definition add_marker :: "nat \<Rightarrow> string \<Rightarrow> string" where
  "add_marker n description =
     (if description \<noteq> [] then description @ [nl, nl] @ basecampMarker n
      else basecampMarker n)"

definition mapCard ::
  "bc_card \<Rightarrow> (string \<rightharpoonup> user_mapping) \<Rightarrow> (nat \<rightharpoonup> column_action) \<Rightarrow> mapped_card" where
  "mapCard basecampCard userMappings columnMappings =
     (let description = (if truthy (c_content basecampCard)
                         then convertBasecampToFizzyHTML (c_content basecampCard) else []);
          assignees = mapAssignees (c_assignees basecampCard) userMappings;
          steps = mapSteps (c_steps basecampCard) userMappings;
          columnAction = (case c_parent basecampCard of
                            None \<Rightarrow> None
                          | Some p \<Rightarrow> columnMappings (par_id p));
          title = overflow_title (c_title basecampCard);
          description = overflow_description (c_title basecampCard) description;
          description = add_marker (c_id basecampCard) description
      in \<lparr>mc_card = \<lparr>fc_title = title, fc_description = description,
                      fc_status = ''published''\<rparr>,
          mc_metadata =
            \<lparr>md_basecamp_id = c_id basecampCard,
             md_basecamp_parent_id = map_option par_id (c_parent basecampCard),
             md_basecamp_parent_title = map_option par_title (c_parent basecampCard),
             md_column_action = columnAction,
             md_assignee_ids = fst assignees,
             md_unmapped_assignees = snd assignees,
             md_steps = fst steps,
             md_unmapped_step_assignees = snd steps,
             md_completed = c_completed basecampCard,
             md_comments_count = c_comments_count basecampCard\<rparr>\<rparr>)"

definition extractBasecampId :: "string option \<Rightarrow> string option" where
  "extractBasecampId description =
     (if \<not> truthy description then None
      else match_after ''#basecamp-id-'' is_digit (the description))"

section \<open>Rate-limited transport\<close>

subsection \<open>Errors\<close>

text \<open>
  What the retry wrapper reads of the object it finds in the \<open>response\<close> property of a
  thrown error: its \<open>status\<close> property, and of its \<open>headers\<close> property the
  \<open>retry-after\<close> entry, given in seconds. \<open>rv_headers = None\<close> is an object without
  \<open>headers\<close>.
\<close>

record response_view =
  rv_status :: "int option"
  rv_headers :: "nat option option"

text \<open>
  A thrown error object: \<open>message\<close>, \<open>statusCode\<close> (set by \<open>ApiError\<close> only) and
  \<open>response\<close>; \<open>e_response = None\<close> is a falsy \<open>response\<close> property.
\<close>

record js_error =
  e_message :: string
  e_statusCode :: "int option"
  e_response :: "response_view option"

text \<open>
  The HTTP response inside an error of the HTTP library: status, the \<open>retry-after\<close>
  header, and the parsed body \<open>data\<close> (\<open>None\<close> when it is empty), of which the model
  keeps the properties named \<open>status\<close> and \<open>headers\<close>, if it has any.
\<close>

record http_response =
  rs_status :: int
  rs_retry_after :: "nat option"
  rs_data :: "response_view option"

record http_error =
  he_message :: string
  he_response :: "http_response option"

text \<open>The error of the HTTP library as it is thrown when no interceptor stands between.\<close>

definition raw_error :: "http_error \<Rightarrow> js_error" where
  "raw_error error =
     \<lparr>e_message = he_message error, e_statusCode = None,
      e_response = map_option
        (\<lambda>r. \<lparr>rv_status = Some (rs_status r), rv_headers = Some (rs_retry_after r)\<rparr>)
        (he_response error)\<rparr>"

text \<open>\<^verbatim>\<open>new ApiError(error.message, error.response?.status, error.response?.data)\<close>\<close>

definition ApiError :: "http_error \<Rightarrow> js_error" where
  "ApiError error =
     \<lparr>e_message = he_message error,
      e_statusCode = map_option rs_status (he_response error),
      e_response = (case he_response error of None \<Rightarrow> None | Some r \<Rightarrow> rs_data r)\<rparr>"

text \<open>
  The response interceptor of the Fizzy client wraps every error. The one of the Basecamp
  client first handles status 401 when it holds a refresh token: \<open>refreshed\<close> is the
  outcome of refreshing the token and repeating the request.
\<close>

definition AuthenticationError :: "string \<Rightarrow> js_error" where
  "AuthenticationError msg = \<lparr>e_message = msg, e_statusCode = None, e_response = None\<rparr>"

definition fizzy_interceptor :: "http_error + 'a \<Rightarrow> js_error + 'a" where
  "fizzy_interceptor r = (case r of Inl error \<Rightarrow> Inl (ApiError error) | Inr v \<Rightarrow> Inr v)"

datatype 'a refresh_outcome = RefreshFailed | Repeated "js_error + 'a"

definition basecamp_interceptor ::
  "bool \<Rightarrow> 'a refresh_outcome \<Rightarrow> http_error + 'a \<Rightarrow> js_error + 'a" where
  "basecamp_interceptor hasRefreshToken refreshed r =
     (case r of
        Inr v \<Rightarrow> Inr v
      | Inl error \<Rightarrow>
          (if map_option rs_status (he_response error) = Some 401 \<and> hasRefreshToken then
             (case refreshed of
                RefreshFailed \<Rightarrow> Inl (AuthenticationError ''Failed to refresh Basecamp token'')
              | Repeated r' \<Rightarrow> r')
           else Inl (ApiError error)))"

subsection \<open>Retry wrapper\<close>

text \<open>
  What \<open>withRetry\<close> throws: an error of the wrapped function, the \<open>TypeError\<close> of reading
  \<open>retry-after\<close> from missing headers, or \<open>undefined\<close> when the loop body never ran.
\<close>

datatype thrown = Thrown js_error | TypeError | ThrownUndefined

record 'a retry_result =
  rr_outcome :: "thrown + 'a"
  rr_invocations :: nat
  rr_sleeps :: "int list"

text \<open>
  \<open>fn k\<close> is the outcome of the \<open>k\<close>-th invocation of the wrapped function. The loop
  counts \<open>attempt\<close> from 1 to \<open>maxRetries\<close>; \<open>n\<close> invocations and the sleeps \<open>sl\<close> lie
  behind it. The \<open>onRetry\<close> callback is absent, as in every call of the clients.
\<close>

function withRetry_loop ::
  "(nat \<Rightarrow> js_error + 'a) \<Rightarrow> nat \<Rightarrow> int \<Rightarrow> int \<Rightarrow> nat \<Rightarrow> js_error option \<Rightarrow> int list
     \<Rightarrow> 'a retry_result" where
  "withRetry_loop fn maxRetries baseDelay maxDelay attempt lastError sl =
     (if \<not> attempt \<le> maxRetries then
        \<lparr>rr_outcome = Inl (case lastError of None \<Rightarrow> ThrownUndefined | Some e \<Rightarrow> Thrown e),
         rr_invocations = attempt - 1, rr_sleeps = sl\<rparr>
      else
        (case fn attempt of
           Inr v \<Rightarrow> \<lparr>rr_outcome = Inr v, rr_invocations = attempt, rr_sleeps = sl\<rparr>
         | Inl error \<Rightarrow>
             (let backoff =
                (if attempt = maxRetries then
                   \<lparr>rr_outcome = Inl (Thrown error), rr_invocations = attempt, rr_sleeps = sl\<rparr>
                 else
                   withRetry_loop fn maxRetries baseDelay maxDelay (attempt + 1) (Some error)
                     (sl @ [min (baseDelay * 2 ^ (attempt - 1)) maxDelay]))
              in case e_response error of
                   None \<Rightarrow> backoff
                 | Some response \<Rightarrow>
                     (case rv_status response of
                        None \<Rightarrow> backoff
                      | Some status \<Rightarrow>
                          if status \<ge> 400 \<and> status < 500 \<and> status \<noteq> 429 then
                            \<lparr>rr_outcome = Inl (Thrown error), rr_invocations = attempt,
                             rr_sleeps = sl\<rparr>
                          else if status = 429 then
                            (case rv_headers response of
                               None \<Rightarrow>
                                 \<lparr>rr_outcome = Inl TypeError, rr_invocations = attempt,
                                  rr_sleeps = sl\<rparr>
                             | Some retry_after \<Rightarrow>
                                 (if attempt < maxRetries then
                                    withRetry_loop fn maxRetries baseDelay maxDelay (attempt + 1)
                                      (Some error)
                                      (sl @ [int (case retry_after of None \<Rightarrow> 5 | Some n \<Rightarrow> n)
                                             * 1000])
                                  else backoff))
                          else backoff))))"
  by pat_completeness auto
termination
  by (relation "measure (\<lambda>(fn, maxRetries, baseDelay, maxDelay, attempt, lastError, sl).
        Suc maxRetries - attempt)") auto

declare withRetry_loop.simps [simp del]

definition withRetry_opts :: "(nat \<Rightarrow> js_error + 'a) \<Rightarrow> nat \<Rightarrow> int \<Rightarrow> int \<Rightarrow> 'a retry_result" where
  "withRetry_opts fn maxRetries baseDelay maxDelay =
     withRetry_loop fn maxRetries baseDelay maxDelay 1 None []"

text \<open>The defaults: three attempts, base delay 1000 ms, maximal delay 30000 ms.\<close>

definition withRetry :: "(nat \<Rightarrow> js_error + 'a) \<Rightarrow> 'a retry_result" where
  "withRetry fn = withRetry_opts fn 3 1000 30000"

text \<open>
  A request of a client: the retry wrapper around the HTTP call with its response
  interceptor. \<open>http k\<close> is what the HTTP library yields at the \<open>k\<close>-th send.
\<close>

definition fizzy_request :: "(nat \<Rightarrow> http_error + 'a) \<Rightarrow> 'a retry_result" where
  "fizzy_request http = withRetry (\<lambda>k. fizzy_interceptor (http k))"

definition basecamp_request ::
  "bool \<Rightarrow> (nat \<Rightarrow> 'a refresh_outcome) \<Rightarrow> (nat \<Rightarrow> http_error + 'a) \<Rightarrow> 'a retry_result" where
  "basecamp_request hasRefreshToken refreshed http =
     withRetry (\<lambda>k. basecamp_interceptor hasRefreshToken (refreshed k) (http k))"

section \<open>Status mapper\<close>

definition TRIAGE :: string where "TRIAGE = ''Kanban::Triage''"
definition NOT_NOW_COLUMN :: string where "NOT_NOW_COLUMN = ''Kanban::NotNowColumn''"
definition DONE :: string where "DONE = ''Kanban::DoneColumn''"
definition REGULAR :: string where "REGULAR = ''Kanban::Column''"

definition KEEP_TRIAGE :: string where "KEEP_TRIAGE = ''keep_triage''"
definition NOT_NOW :: string where "NOT_NOW = ''not_now''"
definition CLOSE :: string where "CLOSE = ''close''"
definition TRIAGE_TO_COLUMN :: string where "TRIAGE_TO_COLUMN = ''triage_to_column''"

definition BASECAMP_TO_FIZZY_COLORS :: "string \<rightharpoonup> string" where
  "BASECAMP_TO_FIZZY_COLORS =
     [''purple'' \<mapsto> ''var(--color-card-7)'',
      ''orange'' \<mapsto> ''var(--color-card-3)'',
      ''blue'' \<mapsto> ''var(--color-card-default)'',
      ''gray'' \<mapsto> ''var(--color-card-1)'',
      ''pink'' \<mapsto> ''var(--color-card-8)'',
      ''yellow'' \<mapsto> ''var(--color-card-2)'',
      ''green'' \<mapsto> ''var(--color-card-4)'',
      ''red'' \<mapsto> ''var(--color-card-5)'',
      ''default'' \<mapsto> ''var(--color-card-default)'']"

text \<open>
  The colour table is looked up by property name; names that every object inherits (such as
  \<open>constructor\<close>) are not colours of the source and lie outside the model.
\<close>

definition mapBasecampColorToFizzy :: "string option \<Rightarrow> string" where
  "mapBasecampColorToFizzy basecampColor =
     (if \<not> truthy basecampColor then ''var(--color-card-default)''
      else case BASECAMP_TO_FIZZY_COLORS (toLowerCase (the basecampColor)) of
             Some c \<Rightarrow> c
           | None \<Rightarrow> ''var(--color-card-default)'')"

definition getColumnAction :: "string \<Rightarrow> string option \<Rightarrow> column_action" where
  "getColumnAction columnType columnId =
     (if columnType = TRIAGE then \<lparr>a_type = KEEP_TRIAGE, a_target = None\<rparr>
      else if columnType = NOT_NOW_COLUMN then \<lparr>a_type = NOT_NOW, a_target = None\<rparr>
      else if columnType = DONE then \<lparr>a_type = CLOSE, a_target = None\<rparr>
      else \<lparr>a_type = TRIAGE_TO_COLUMN, a_target = columnId\<rparr>)"

record bc_column =
  col_id :: nat
  col_title :: "string option"
  col_name :: "string option"
  col_type :: "string option"
  col_color :: "string option"

definition detectColumnType :: "bc_column option \<Rightarrow> string" where
  "detectColumnType column =
     (case column of
        None \<Rightarrow> REGULAR
      | Some col \<Rightarrow>
          if truthy (col_type col) then the (col_type col)
          else
            (let name = toLowerCase
                   (case or_else (col_title col) (col_name col) of None \<Rightarrow> [] | Some n \<Rightarrow> n)
             in if str_includes name ''triage'' \<or> str_includes name ''maybe'' then TRIAGE
                else if str_includes name ''not now'' \<or> str_includes name ''later''
                  then NOT_NOW_COLUMN
                else if str_includes name ''done'' \<or> str_includes name ''completed'' then DONE
                else REGULAR))"

definition columnsMatch :: "string option \<Rightarrow> string option \<Rightarrow> bool" where
  "columnsMatch basecampColumnName fizzyColumnTitle =
     (if \<not> truthy basecampColumnName \<or> \<not> truthy fizzyColumnTitle then False
      else trim (toLowerCase (the basecampColumnName))
           = trim (toLowerCase (the fizzyColumnTitle)))"

section \<open>Destination client: creating a column\<close>

text \<open>A column object of the destination; \<open>{}\<close> is the object without any property.\<close>

record fizzy_column =
  fz_id :: "string option"
  fz_name :: "string option"
  fz_title :: "string option"

definition empty_object :: fizzy_column where
  "empty_object = \<lparr>fz_id = None, fz_name = None, fz_title = None\<rparr>"

text \<open>
  The response to the creation request: the \<open>location\<close> header and the parsed body
  (\<open>None\<close> when it is empty).
\<close>

record create_response =
  cr_location :: "string option"
  cr_data :: "fizzy_column option"

text \<open>
  \<open>createColumn\<close> of the client, given the response to its POST and the outcome of the
  \<open>getColumns\<close> that it issues when it has to look the new column up.
\<close>

definition createColumn_result ::
  "create_response \<Rightarrow> js_error + fizzy_column list \<Rightarrow> js_error + fizzy_column" where
  "createColumn_result response fetched =
     (let fallback = (case cr_data response of Some d \<Rightarrow> d | None \<Rightarrow> empty_object)
      in if truthy (cr_location response) \<and> cr_data response = None then
           (case match_after ''/columns/'' (\<lambda>c. c \<noteq> CHR ''.'') (the (cr_location response)) of
              None \<Rightarrow> Inr fallback
            | Some columnId \<Rightarrow>
                (case fetched of
                   Inl e \<Rightarrow> Inl e
                 | Inr columns \<Rightarrow>
                     (case find (\<lambda>c. fz_id c = Some columnId) columns of
                        Some c \<Rightarrow> Inr c
                      | None \<Rightarrow> Inr fallback)))
         else Inr fallback)"

section \<open>Destination cards\<close>

text \<open>
  A card object of the destination, with its \<open>number\<close> and \<open>description\<close> properties;
  \<open>fc_number = None\<close> is an object without a \<open>number\<close>.
\<close>

record fizzy_card =
  fc_number :: "nat option"
  fc_body :: "string option"

text \<open>A card number in a template string.\<close>

definition show_number :: "nat option \<Rightarrow> string" where
  "show_number n = (case n of None \<Rightarrow> ''undefined'' | Some k \<Rightarrow> show_nat k)"

section \<open>Destination client: creating a card\<close>

text \<open>
  The response to the creation request of a card: the \<open>location\<close> header and the body
  (\<open>None\<close> when it is empty; a body that is JSON \<open>null\<close> lies outside the model).
\<close>

record card_response =
  cd_location :: "string option"
  cd_data :: "fizzy_card option"

definition no_properties :: fizzy_card where
  "no_properties = \<lparr>fc_number = None, fc_body = None\<rparr>"

text \<open>
  \<open>createCard\<close> of the client, given the response to its POST and the outcome of the
  \<open>getCard\<close> that it issues when the location names a card number: it returns what that
  \<open>getCard\<close> returns or throws, and the body of the response otherwise.
\<close>

definition createCard_result ::
  "card_response \<Rightarrow> js_error + fizzy_card \<Rightarrow> js_error + fizzy_card" where
  "createCard_result response fetched =
     (let data = (case cd_data response of Some d \<Rightarrow> d | None \<Rightarrow> no_properties)
      in if truthy (cd_location response) then
           (case match_after ''/cards/'' is_digit (the (cd_location response)) of
              Some number \<Rightarrow> fetched
            | None \<Rightarrow> Inr data)
         else Inr data)"

section \<open>Column mapper\<close>

text \<open>
  The destination as the column mapper meets it: \<open>createColumn_reply n name color\<close> is the
  outcome of the \<open>createColumn\<close> call issued after \<open>n\<close> earlier ones.
\<close>

record column_report =
  rp_basecamp_id :: nat
  rp_basecamp_name :: "string option"
  rp_fizzy_column_id :: "string option"
  rp_fizzy_column_title :: "string option"
  rp_action :: column_action

record column_result =
  cm_mappings :: "nat \<rightharpoonup> column_action"
  cm_actions :: "column_report list"
  cm_created :: "fizzy_column list"
  cm_calls :: "(string option \<times> string) list"

definition findMatchingColumn :: "string option \<Rightarrow> fizzy_column list \<Rightarrow> fizzy_column option" where
  "findMatchingColumn basecampColumnName fizzyColumns =
     find (\<lambda>fzColumn. columnsMatch basecampColumnName
                        (or_else (fz_name fzColumn) (fz_title fzColumn)))
       fizzyColumns"

definition special_type :: "string \<Rightarrow> bool" where
  "special_type columnType =
     (columnType = TRIAGE \<or> columnType = NOT_NOW_COLUMN \<or> columnType = DONE)"

definition regular_report :: "bc_column \<Rightarrow> fizzy_column \<Rightarrow> column_report" where
  "regular_report bcColumn fizzyColumn =
     \<lparr>rp_basecamp_id = col_id bcColumn,
      rp_basecamp_name = or_else (col_title bcColumn) (col_name bcColumn),
      rp_fizzy_column_id = fz_id fizzyColumn,
      rp_fizzy_column_title = or_else (fz_name fizzyColumn) (fz_title fizzyColumn),
      rp_action = getColumnAction REGULAR (fz_id fizzyColumn)\<rparr>"

definition record_column :: "column_report \<Rightarrow> column_result \<Rightarrow> column_result" where
  "record_column rp acc =
     acc\<lparr>cm_mappings := (cm_mappings acc)(rp_basecamp_id rp \<mapsto> rp_action rp),
         cm_actions := cm_actions acc @ [rp]\<rparr>"

text \<open>
  The loop of \<open>mapColumns\<close> over the source columns. \<open>cm_calls\<close> lists the \<open>createColumn\<close>
  calls made so far, each with the name and colour sent. A failed creation is thrown on.
\<close>

fun mapColumns_loop ::
  "(nat \<Rightarrow> string option \<Rightarrow> string \<Rightarrow> js_error + fizzy_column) \<Rightarrow> bool \<Rightarrow> fizzy_column list
     \<Rightarrow> bc_column list \<Rightarrow> column_result \<Rightarrow> js_error + column_result" where
  "mapColumns_loop createColumn_reply dryRun fizzyColumns [] acc = Inr acc"
| "mapColumns_loop createColumn_reply dryRun fizzyColumns (bcColumn # rest) acc =
     (let columnType = detectColumnType (Some bcColumn);
          columnName = or_else (col_title bcColumn) (col_name bcColumn);
          columnId = col_id bcColumn
      in if special_type columnType then
           mapColumns_loop createColumn_reply dryRun fizzyColumns rest
             (record_column
                \<lparr>rp_basecamp_id = columnId, rp_basecamp_name = columnName,
                 rp_fizzy_column_id = None, rp_fizzy_column_title = None,
                 rp_action = getColumnAction columnType None\<rparr> acc)
         else
           (case findMatchingColumn columnName fizzyColumns of
              Some fizzyColumn \<Rightarrow>
                mapColumns_loop createColumn_reply dryRun fizzyColumns rest
                  (record_column (regular_report bcColumn fizzyColumn) acc)
            | None \<Rightarrow>
                if dryRun then
                  mapColumns_loop createColumn_reply dryRun fizzyColumns rest
                    (record_column
                       (regular_report bcColumn
                          \<lparr>fz_id = Some (''dry-run-'' @ show_nat columnId),
                           fz_name = columnName, fz_title = None\<rparr>) acc)
                else
                  (let color = mapBasecampColorToFizzy (col_color bcColumn)
                   in case createColumn_reply (length (cm_calls acc)) columnName color of
                        Inl error \<Rightarrow> Inl error
                      | Inr fizzyColumn \<Rightarrow>
                          mapColumns_loop createColumn_reply dryRun fizzyColumns rest
                            (record_column (regular_report bcColumn fizzyColumn)
                               (acc\<lparr>cm_created := cm_created acc @ [fizzyColumn],
                                    cm_calls := cm_calls acc @ [(columnName, color)]\<rparr>)))))"

definition mapColumns ::
  "(nat \<Rightarrow> string option \<Rightarrow> string \<Rightarrow> js_error + fizzy_column) \<Rightarrow> bool \<Rightarrow> bc_column list
     \<Rightarrow> fizzy_column list \<Rightarrow> js_error + column_result" where
  "mapColumns createColumn_reply dryRun basecampColumns fizzyColumns =
     mapColumns_loop createColumn_reply dryRun fizzyColumns basecampColumns
       \<lparr>cm_mappings = Map.empty, cm_actions = [], cm_created = [], cm_calls = []\<rparr>"

section \<open>Migration state\<close>

text \<open>
  An instant is the clock reading in milliseconds; the source stores its ISO rendering.
\<close>

record progress =
  processed_cards :: nat
  successful_cards :: nat
  failed_cards :: nat
  skipped_cards :: nat
  current_phase :: string

record metadata =
  comments_migrated :: nat
  steps_migrated :: nat
  columns_created :: nat
  users_mapped :: nat

record failed_item =
  fi_type :: string
  fi_basecamp_id :: "nat option"
  fi_title :: string
  fi_error :: string
  fi_timestamp :: nat

datatype warning_context = ErrorContext string | CardContext nat

record warning =
  wn_message :: string
  wn_context :: warning_context
  wn_timestamp :: nat

record migration =
  migration_id :: string
  status :: string
  started_at :: nat
  updated_at :: nat
  completed_at :: "nat option"
  progress :: progress
  metadata :: metadata
  user_mappings :: "string \<rightharpoonup> user_mapping"
  column_mappings :: "nat \<rightharpoonup> column_action"
  existing_cards :: "string \<rightharpoonup> nat"
  failed_items :: "failed_item list"
  warnings :: "warning list"

section \<open>The two remote systems, the clock and the disk\<close>

record bc_comment =
  cmt_content :: "string option"
  cmt_creator :: "person option"
  cmt_created_at :: string

text \<open>
  The calls of the orchestrator to the clients (account, board and project are those of
  the run and left out).
\<close>

datatype call =
    GetCards
  | GetAllCardsFromColumn nat
  | GetComments nat
  | CreateCard fizzy_card_data
  | TriageCard "nat option" string
  | NotNowCard "nat option"
  | CloseCard "nat option"
  | AssignUser "nat option" string
  | CreateStep "nat option" fizzy_step
  | CreateComment "nat option" string

text \<open>The calls that change the destination.\<close>

fun mutating :: "call \<Rightarrow> bool" where
  "mutating GetCards = False"
| "mutating (GetAllCardsFromColumn c) = False"
| "mutating (GetComments c) = False"
| "mutating c = True"

text \<open>The calls that create a destination card.\<close>

fun is_create :: "call \<Rightarrow> bool" where
  "is_create (CreateCard d) = True"
| "is_create c = False"

text \<open>
  The environment answers a call from the calls made so far, the answered one last. For the
  creation of a card it gives the response to the POST (\<open>postCard_reply\<close>) and the outcome of
  the \<open>getCard\<close> that the client may issue after it (\<open>getCard_reply\<close>). The
  \<open>k\<close>-th reading of the clock is \<open>clock k\<close>, the outcome of the \<open>k\<close>-th write of the state
  file \<open>writeFile_reply k\<close>.
\<close>

record env =
  clock :: "nat \<Rightarrow> nat"
  postCard_reply :: "call list \<Rightarrow> js_error + card_response"
  getCard_reply :: "call list \<Rightarrow> js_error + fizzy_card"
  post_reply :: "call list \<Rightarrow> js_error option"
  getComments_reply :: "call list \<Rightarrow> js_error + bc_comment list"
  getCards_reply :: "call list \<Rightarrow> js_error + fizzy_card list"
  getAllCardsFromColumn_reply :: "call list \<Rightarrow> js_error + bc_card list"
  writeFile_reply :: "nat \<Rightarrow> js_error option"
  toLocaleDateString :: "string \<Rightarrow> string"

record world =
  calls :: "call list"
  ticks :: nat
  writes :: nat
  disk :: "migration option"

definition invoke :: "call \<Rightarrow> world \<Rightarrow> world" where
  "invoke c w = w\<lparr>calls := calls w @ [c]\<rparr>"

definition now :: "env \<Rightarrow> world \<Rightarrow> nat \<times> world" where
  "now e w = (clock e (ticks w), w\<lparr>ticks := Suc (ticks w)\<rparr>)"

text \<open>A call whose result is not used: placement, closing, assignment, step, comment.\<close>

definition post :: "env \<Rightarrow> call \<Rightarrow> world \<Rightarrow> js_error option \<times> world" where
  "post e c w = (let w' = invoke c w in (post_reply e (calls w'), w'))"

text \<open>
  \<open>createCard\<close> of the client as the orchestrator calls it: a failed POST is thrown on;
  otherwise the result is what \<open>createCard_result\<close> makes of the response.
\<close>

definition createCard :: "env \<Rightarrow> call list \<Rightarrow> js_error + fizzy_card" where
  "createCard e cs =
     (case postCard_reply e cs of
        Inl error \<Rightarrow> Inl error
      | Inr response \<Rightarrow> createCard_result response (getCard_reply e cs))"

subsection \<open>Operations on the state\<close>

definition createMigrationState :: "env \<Rightarrow> world \<Rightarrow> migration \<times> world" where
  "createMigrationState e w =
     (let (t0, w0) = now e w; (t1, w1) = now e w0; (t2, w2) = now e w1
      in (\<lparr>migration_id = ''mig_'' @ show_nat t0, status = ''in_progress'',
           started_at = t1, updated_at = t2, completed_at = None,
           progress = \<lparr>processed_cards = 0, successful_cards = 0, failed_cards = 0,
                       skipped_cards = 0, current_phase = ''initialization''\<rparr>,
           metadata = \<lparr>comments_migrated = 0, steps_migrated = 0, columns_created = 0,
                       users_mapped = 0\<rparr>,
           user_mappings = Map.empty, column_mappings = Map.empty,
           existing_cards = Map.empty, failed_items = [], warnings = []\<rparr>, w2))"

definition saveMigrationState ::
  "env \<Rightarrow> migration \<Rightarrow> world \<Rightarrow> js_error option \<times> migration \<times> world" where
  "saveMigrationState e m w =
     (let (t, w1) = now e w;
          m' = m\<lparr>updated_at := t\<rparr>;
          w2 = w1\<lparr>writes := Suc (writes w1)\<rparr>
      in case writeFile_reply e (writes w1) of
           Some error \<Rightarrow> (Some error, m', w2)
         | None \<Rightarrow> (None, m', w2\<lparr>disk := Some m'\<rparr>))"

definition completeMigration :: "env \<Rightarrow> string \<Rightarrow> migration \<Rightarrow> world \<Rightarrow> migration \<times> world" where
  "completeMigration e st m w =
     (let (t, w') = now e w
      in (m\<lparr>status := st, completed_at := Some t,
            progress := (progress m)\<lparr>current_phase := ''completed''\<rparr>\<rparr>, w'))"

text \<open>
  \<open>addFailedItem\<close> for a card: a card has no \<open>basecamp_id\<close> and no \<open>name\<close>, so
  \<^verbatim>\<open>item.id || item.basecamp_id\<close> is the id unless it is 0, and
  \<^verbatim>\<open>item.title || item.name || 'Unknown'\<close> the title unless it is empty.
\<close>

definition addFailedItem ::
  "env \<Rightarrow> string \<Rightarrow> bc_card \<Rightarrow> js_error \<Rightarrow> migration \<Rightarrow> world \<Rightarrow> migration \<times> world" where
  "addFailedItem e type item error m w =
     (let (t, w') = now e w
      in (m\<lparr>failed_items := failed_items m @
             [\<lparr>fi_type = type,
               fi_basecamp_id = (if c_id item = 0 then None else Some (c_id item)),
               fi_title = (if c_title item = [] then ''Unknown'' else c_title item),
               fi_error = e_message error,
               fi_timestamp = t\<rparr>]\<rparr>, w'))"

definition addWarning ::
  "env \<Rightarrow> string \<Rightarrow> warning_context \<Rightarrow> migration \<Rightarrow> world \<Rightarrow> migration \<times> world" where
  "addWarning e message context m w =
     (let (t, w') = now e w
      in (m\<lparr>warnings := warnings m @
             [\<lparr>wn_message = message, wn_context = context, wn_timestamp = t\<rparr>]\<rparr>, w'))"

section \<open>Orchestrator\<close>

record options =
  migrateComments :: bool
  updateExisting :: bool
  dryRun :: bool

text \<open>The body of a mapped comment (\<open>mapComment\<close>, of which the orchestrator uses the body).\<close>

definition mapComment_body :: "env \<Rightarrow> bc_comment \<Rightarrow> (string \<rightharpoonup> user_mapping) \<Rightarrow> string" where
  "mapComment_body e basecampComment userMappings =
     (let mapping = (case cmt_creator basecampComment of
                       None \<Rightarrow> None
                     | Some creator \<Rightarrow> mapped_user userMappings (p_id creator));
          body = (if truthy (cmt_content basecampComment)
                  then convertBasecampToFizzyHTML (cmt_content basecampComment) else [])
      in case mapping of
           Some m \<Rightarrow> body
         | None \<Rightarrow>
             (case cmt_creator basecampComment of
                None \<Rightarrow> body
              | Some creator \<Rightarrow>
                  ''_Original comment by '' @ p_name creator @ '' on ''
                  @ toLocaleDateString e (cmt_created_at basecampComment) @ ''_''
                  @ [nl, nl] @ body))"

text \<open>
  Truthiness of an entry of \<open>existing_cards\<close>: present and not 0. Storing a card number
  that is \<open>undefined\<close> leaves an entry that reads as \<open>undefined\<close>, like no entry.
\<close>

definition already_migrated :: "migration \<Rightarrow> string \<Rightarrow> bool" where
  "already_migrated m basecampId =
     (case existing_cards m basecampId of None \<Rightarrow> False | Some n \<Rightarrow> n \<noteq> 0)"

definition placeCardInColumn ::
  "env \<Rightarrow> fizzy_card \<Rightarrow> column_action option \<Rightarrow> world \<Rightarrow> js_error option \<times> world" where
  "placeCardInColumn e fizzyCard columnAction w =
     (case columnAction of
        None \<Rightarrow> (None, w)
      | Some action \<Rightarrow>
          if a_type action = KEEP_TRIAGE then (None, w)
          else if a_type action = NOT_NOW then post e (NotNowCard (fc_number fizzyCard)) w
          else if a_type action = CLOSE then post e (CloseCard (fc_number fizzyCard)) w
          else if a_type action = TRIAGE_TO_COLUMN then
            (if truthy (a_target action)
             then post e (TriageCard (fc_number fizzyCard) (the (a_target action))) w
             else (None, w))
          else (None, w))"

fun assign_users ::
  "env \<Rightarrow> fizzy_card \<Rightarrow> string list \<Rightarrow> migration \<Rightarrow> world \<Rightarrow> migration \<times> world" where
  "assign_users e fizzyCard [] m w = (m, w)"
| "assign_users e fizzyCard (assigneeId # rest) m w =
     (case post e (AssignUser (fc_number fizzyCard) assigneeId) w of
        (None, w') \<Rightarrow> assign_users e fizzyCard rest m w'
      | (Some error, w') \<Rightarrow>
          (let (m', w'') = addWarning e
                 (''Failed to assign user '' @ assigneeId @ '' to card ''
                  @ show_number (fc_number fizzyCard))
                 (ErrorContext (e_message error)) m w'
           in assign_users e fizzyCard rest m' w''))"

fun add_steps ::
  "env \<Rightarrow> fizzy_card \<Rightarrow> fizzy_step list \<Rightarrow> migration \<Rightarrow> world \<Rightarrow> migration \<times> world" where
  "add_steps e fizzyCard [] m w = (m, w)"
| "add_steps e fizzyCard (step # rest) m w =
     (case post e (CreateStep (fc_number fizzyCard) step) w of
        (None, w') \<Rightarrow>
          add_steps e fizzyCard rest
            (m\<lparr>metadata := (metadata m)\<lparr>steps_migrated := steps_migrated (metadata m) + 1\<rparr>\<rparr>)
            w'
      | (Some error, w') \<Rightarrow>
          (let (m', w'') = addWarning e
                 (''Failed to create step for card '' @ show_number (fc_number fizzyCard))
                 (ErrorContext (e_message error)) m w'
           in add_steps e fizzyCard rest m' w''))"

fun migrate_comments ::
  "env \<Rightarrow> fizzy_card \<Rightarrow> bc_comment list \<Rightarrow> migration \<Rightarrow> world \<Rightarrow> migration \<times> world" where
  "migrate_comments e fizzyCard [] m w = (m, w)"
| "migrate_comments e fizzyCard (comment # rest) m w =
     (case post e (CreateComment (fc_number fizzyCard)
                     (mapComment_body e comment (user_mappings m))) w of
        (None, w') \<Rightarrow>
          migrate_comments e fizzyCard rest
            (m\<lparr>metadata := (metadata m)
                 \<lparr>comments_migrated := comments_migrated (metadata m) + 1\<rparr>\<rparr>) w'
      | (Some error, w') \<Rightarrow>
          (let (m', w'') = addWarning e
                 (''Failed to migrate comment for card '' @ show_number (fc_number fizzyCard))
                 (ErrorContext (e_message error)) m w'
           in migrate_comments e fizzyCard rest m' w''))"

definition migrateComments_forCard ::
  "env \<Rightarrow> bc_card \<Rightarrow> fizzy_card \<Rightarrow> migration \<Rightarrow> world \<Rightarrow> migration \<times> world" where
  "migrateComments_forCard e basecampCard fizzyCard m w =
     (let w' = invoke (GetComments (c_id basecampCard)) w
      in case getComments_reply e (calls w') of
           Inr comments \<Rightarrow> migrate_comments e fizzyCard comments m w'
         | Inl error \<Rightarrow>
             addWarning e (''Failed to fetch comments for card '' @ show_nat (c_id basecampCard))
               (ErrorContext (e_message error)) m w')"

fun warn_unmapped ::
  "env \<Rightarrow> bc_card \<Rightarrow> unmapped_assignee list \<Rightarrow> migration \<Rightarrow> world \<Rightarrow> migration \<times> world" where
  "warn_unmapped e bcCard [] m w = (m, w)"
| "warn_unmapped e bcCard (assignee # rest) m w =
     (let (m', w') = addWarning e
            (''Unmapped assignee: '' @ ua_name assignee @ '' (''
             @ (case ua_email assignee of None \<Rightarrow> ''undefined'' | Some a \<Rightarrow> a) @ '')'')
            (CardContext (c_id bcCard)) m w
      in warn_unmapped e bcCard rest m' w')"

text \<open>
  \<open>migrateCard\<close> returns the error it throws, if any, with the state and the world as it
  leaves them: what it has changed before throwing stays changed.
\<close>

definition migrateCard ::
  "env \<Rightarrow> bc_card \<Rightarrow> options \<Rightarrow> migration \<Rightarrow> world \<Rightarrow> js_error option \<times> migration \<times> world" where
  "migrateCard e bcCard opts m w =
     (let basecampId = show_nat (c_id bcCard)
      in if already_migrated m basecampId \<and> \<not> updateExisting opts then
           (None,
            m\<lparr>progress := (progress m)\<lparr>skipped_cards := skipped_cards (progress m) + 1\<rparr>\<rparr>,
            w)
         else if dryRun opts then (None, m, w)
         else
           (let mappedCard = mapCard bcCard (user_mappings m) (column_mappings m);
                md = mc_metadata mappedCard;
                w1 = invoke (CreateCard (mc_card mappedCard)) w
            in case createCard e (calls w1) of
                 Inl error \<Rightarrow> (Some error, m, w1)
               | Inr fizzyCard \<Rightarrow>
                   (let m1 = m\<lparr>existing_cards :=
                                   (existing_cards m)(basecampId := fc_number fizzyCard)\<rparr>
                    in case placeCardInColumn e fizzyCard (md_column_action md) w1 of
                         (Some error, w2) \<Rightarrow> (Some error, m1, w2)
                       | (None, w2) \<Rightarrow>
                           (let (m2, w3) = assign_users e fizzyCard (md_assignee_ids md) m1 w2;
                                (m3, w4) = add_steps e fizzyCard (md_steps md) m2 w3
                            in case (if md_completed md
                                     then post e (CloseCard (fc_number fizzyCard)) w4
                                     else (None, w4)) of
                                 (Some error, w5) \<Rightarrow> (Some error, m3, w5)
                               | (None, w5) \<Rightarrow>
                                   (let (m4, w6) =
                                          (if migrateComments opts \<and> md_comments_count md > 0
                                           then migrateComments_forCard e bcCard fizzyCard m3 w5
                                           else (m3, w5))
                                    in case warn_unmapped e bcCard (md_unmapped_assignees md) m4 w6
                                       of (m5, w7) \<Rightarrow> (None, m5, w7))))))"

text \<open>The scan for cards migrated before: one \<open>getCards\<close> call; a failure gives no entries.\<close>

fun scan_cards :: "fizzy_card list \<Rightarrow> (string \<rightharpoonup> nat) \<Rightarrow> (string \<rightharpoonup> nat)" where
  "scan_cards [] existingCards = existingCards"
| "scan_cards (bcCard # rest) existingCards =
     (if truthy (fc_body bcCard) then
        (case match_after ''#basecamp-id-'' is_digit (the (fc_body bcCard)) of
           Some basecampId \<Rightarrow> scan_cards rest (existingCards(basecampId := fc_number bcCard))
         | None \<Rightarrow> scan_cards rest existingCards)
      else scan_cards rest existingCards)"

definition findExistingMigratedCards :: "env \<Rightarrow> world \<Rightarrow> (string \<rightharpoonup> nat) \<times> world" where
  "findExistingMigratedCards e w =
     (let w' = invoke GetCards w
      in case getCards_reply e (calls w') of
           Inr data \<Rightarrow> (scan_cards data Map.empty, w')
         | Inl error \<Rightarrow> (Map.empty, w'))"

text \<open>
  One card of a batch, with the \<open>try\<close> and \<open>catch\<close> around \<open>migrateCard\<close>;
  \<open>processedCount\<close> is the counter of the phase.
\<close>

definition process_card ::
  "env \<Rightarrow> options \<Rightarrow> bc_card \<Rightarrow> nat \<times> migration \<times> world \<Rightarrow> nat \<times> migration \<times> world" where
  "process_card e opts bcCard st =
     (case st of (processedCount, m, w) \<Rightarrow>
        (case migrateCard e bcCard opts m w of
           (None, m1, w1) \<Rightarrow>
             (processedCount + 1,
              m1\<lparr>progress := (progress m1)
                   \<lparr>successful_cards := successful_cards (progress m1) + 1,
                    processed_cards := processedCount + 1\<rparr>\<rparr>,
              w1)
         | (Some error, m1, w1) \<Rightarrow>
             (let m2 = m1\<lparr>progress := (progress m1)
                          \<lparr>failed_cards := failed_cards (progress m1) + 1\<rparr>\<rparr>;
                  (m3, w2) = addFailedItem e ''card'' bcCard error m2 w1
              in (processedCount + 1,
                  m3\<lparr>progress := (progress m3)\<lparr>processed_cards := processedCount + 1\<rparr>\<rparr>,
                  w2))))"

definition process_batch ::
  "env \<Rightarrow> options \<Rightarrow> bc_card list \<Rightarrow> nat \<times> migration \<times> world \<Rightarrow> nat \<times> migration \<times> world" where
  "process_batch e opts batch st = foldl (\<lambda>st bcCard. process_card e opts bcCard st) st batch"

text \<open>
  The batches of one column, each followed by a save. The batch size is a number, as the
  default of \<open>runMigration\<close> is; a batch size that a caller passes as a string lies outside
  the model. The result is \<open>None\<close> when the loop does not end (batch size 0 with cards to
  process); otherwise the error thrown by a save, if any, with the counter, the state and
  the world.
\<close>

function process_batches ::
  "env \<Rightarrow> options \<Rightarrow> nat \<Rightarrow> bc_card list \<Rightarrow> nat \<times> migration \<times> world
     \<Rightarrow> (js_error option \<times> nat \<times> migration \<times> world) option" where
  "process_batches e opts batchSize cards st =
     (if cards = [] then Some (None, st)
      else if batchSize = 0 then None
      else
        (case process_batch e opts (take batchSize cards) st of
           (processedCount, m, w) \<Rightarrow>
             (case saveMigrationState e m w of
                (Some error, m', w') \<Rightarrow> Some (Some error, processedCount, m', w')
              | (None, m', w') \<Rightarrow>
                  process_batches e opts batchSize (drop batchSize cards)
                    (processedCount, m', w'))))"
  by pat_completeness auto
termination
  by (relation "measure (\<lambda>(e, opts, batchSize, cards, st). length cards)") auto

declare process_batches.simps [simp del]

fun process_columns ::
  "env \<Rightarrow> options \<Rightarrow> nat \<Rightarrow> bc_column list \<Rightarrow> nat \<times> migration \<times> world
     \<Rightarrow> (js_error option \<times> migration \<times> world) option" where
  "process_columns e opts batchSize [] st = Some (None, snd st)"
| "process_columns e opts batchSize (column # rest) st =
     (case st of (processedCount, m, w) \<Rightarrow>
        (let w' = invoke (GetAllCardsFromColumn (col_id column)) w
         in case getAllCardsFromColumn_reply e (calls w') of
              Inl error \<Rightarrow> Some (Some error, m, w')
            | Inr cards \<Rightarrow>
                (case process_batches e opts batchSize cards (processedCount, m, w') of
                   None \<Rightarrow> None
                 | Some (Some error, st') \<Rightarrow> Some (Some error, snd st')
                 | Some (None, st') \<Rightarrow> process_columns e opts batchSize rest st')))"

definition phase4_cards ::
  "env \<Rightarrow> options \<Rightarrow> nat \<Rightarrow> bc_column list \<Rightarrow> migration \<Rightarrow> world
     \<Rightarrow> (js_error option \<times> migration \<times> world) option" where
  "phase4_cards e opts batchSize columns m w =
     (case findExistingMigratedCards e w of
        (existingCards, w') \<Rightarrow>
          process_columns e opts batchSize columns
            (0, m\<lparr>existing_cards := existingCards\<rparr>, w'))"

definition phase5_finalize :: "env \<Rightarrow> migration \<Rightarrow> world \<Rightarrow> migration \<times> world" where
  "phase5_finalize e m w =
     (let hasFailures = failed_cards (progress m) > 0;
          st = (if hasFailures then ''partial'' else ''completed'')
      in completeMigration e st m w)"

text \<open>
  The end of \<open>runMigration\<close>: the finalization and the last save.
\<close>

definition updateProgress_phase :: "string \<Rightarrow> migration \<Rightarrow> migration" where
  "updateProgress_phase phase m = m\<lparr>progress := (progress m)\<lparr>current_phase := phase\<rparr>\<rparr>"

definition finish_run ::
  "env \<Rightarrow> migration \<Rightarrow> world \<Rightarrow> js_error option \<times> migration \<times> world" where
  "finish_run e m w =
     (case phase5_finalize e (updateProgress_phase ''finalization'' m) w of
        (m', w') \<Rightarrow> saveMigrationState e m' w')"

section \<open>Predicates of the statements\<close>

text \<open>The name under which the column mapper looks a source column up and creates it.\<close>

definition columnName :: "bc_column \<Rightarrow> string option" where
  "columnName col = or_else (col_title col) (col_name col)"

text \<open>
  A source column for which the mapper, outside a dry run, calls \<open>createColumn\<close>: a regular
  column that no destination column matches.
\<close>

definition to_create :: "fizzy_column list \<Rightarrow> bc_column \<Rightarrow> bool" where
  "to_create fzs col =
     (\<not> special_type (detectColumnType (Some col))
      \<and> findMatchingColumn (columnName col) fzs = None)"

definition placeholder :: "bc_column \<Rightarrow> fizzy_column" where
  "placeholder col =
     \<lparr>fz_id = Some (''dry-run-'' @ show_nat (col_id col)), fz_name = columnName col,
      fz_title = None\<rparr>"

text \<open>
  The destination column that stands for a regular source column: the first destination
  column that matches its name; without a match the placeholder in a dry run, and otherwise
  the \<open>k\<close>-th created column, \<open>k\<close> being the number of columns created before it.
\<close>

definition column_used ::
  "bool \<Rightarrow> fizzy_column list \<Rightarrow> fizzy_column list \<Rightarrow> nat \<Rightarrow> bc_column \<Rightarrow> fizzy_column" where
  "column_used dry fzs created k col =
     (case findMatchingColumn (columnName col) fzs of
        Some fz \<Rightarrow> fz
      | None \<Rightarrow> if dry then placeholder col else created ! k)"

text \<open>
  The report that the mapper is to write for a source column: for a column of a special
  type the action of that type, without a destination column; for a regular column the
  placement into the destination column that stands for it, with the id of that column as
  target.
\<close>

definition report_of ::
  "bool \<Rightarrow> fizzy_column list \<Rightarrow> fizzy_column list \<Rightarrow> nat \<Rightarrow> bc_column \<Rightarrow> column_report" where
  "report_of dry fzs created k col =
     (if special_type (detectColumnType (Some col)) then
        \<lparr>rp_basecamp_id = col_id col, rp_basecamp_name = columnName col,
         rp_fizzy_column_id = None, rp_fizzy_column_title = None,
         rp_action = getColumnAction (detectColumnType (Some col)) None\<rparr>
      else
        (let fz = column_used dry fzs created k col
         in \<lparr>rp_basecamp_id = col_id col, rp_basecamp_name = columnName col,
             rp_fizzy_column_id = fz_id fz,
             rp_fizzy_column_title = or_else (fz_name fz) (fz_title fz),
             rp_action = \<lparr>a_type = TRIAGE_TO_COLUMN, a_target = fz_id fz\<rparr>\<rparr>))"

text \<open>The \<open>createColumn\<close> calls that a run outside a dry run makes for the source columns.\<close>

definition creation_calls :: "fizzy_column list \<Rightarrow> bc_column list \<Rightarrow> (string option \<times> string) list" where
  "creation_calls fzs bcs =
     map (\<lambda>col. (columnName col, mapBasecampColorToFizzy (col_color col)))
       (filter (to_create fzs) bcs)"

text \<open>
  The report of a source column in a dry run: one of the four actions, and for a regular
  column the id of the matching destination column or else the placeholder.
\<close>

definition dry_ok :: "fizzy_column list \<Rightarrow> bc_column \<Rightarrow> column_report \<Rightarrow> bool" where
  "dry_ok fzs col rp =
     (rp_basecamp_id rp = col_id col \<and>
      a_type (rp_action rp) \<in> {KEEP_TRIAGE, NOT_NOW, CLOSE, TRIAGE_TO_COLUMN} \<and>
      (\<not> special_type (detectColumnType (Some col)) \<longrightarrow>
         a_type (rp_action rp) = TRIAGE_TO_COLUMN \<and>
         (case findMatchingColumn (or_else (col_title col) (col_name col)) fzs of
            Some fz \<Rightarrow> a_target (rp_action rp) = fz_id fz
          | None \<Rightarrow> a_target (rp_action rp) = Some (''dry-run-'' @ show_nat (col_id col)))))"

text \<open>The part of the state that the follow-up steps of a card leave as it is.\<close>

definition core ::
  "migration \<Rightarrow> progress \<times> failed_item list \<times> (string \<rightharpoonup> nat) \<times> (string \<rightharpoonup> user_mapping)" where
  "core m = (progress m, failed_items m, existing_cards m, user_mappings m)"



section \<open>Example inputs\<close>

definition long_title_card :: "string option \<Rightarrow> bc_card" where
  "long_title_card content =
     \<lparr>c_id = 7, c_title = replicate 255 CHR ''a'' @ ''b'', c_content = content,
      c_assignees = [], c_steps = [], c_parent = None, c_completed = False,
      c_comments_count = 0\<rparr>"

definition plain_card :: "nat \<Rightarrow> string \<Rightarrow> nat \<Rightarrow> bc_card" where
  "plain_card n t column =
     \<lparr>c_id = n, c_title = t, c_content = None, c_assignees = [], c_steps = [],
      c_parent = Some \<lparr>par_id = column, par_title = ''column''\<rparr>, c_completed = False,
      c_comments_count = 0\<rparr>"

text \<open>
  An environment in which every call succeeds; the creation of a card is answered with the
  location of the new card, and created cards are numbered from 101.
\<close>

definition ok_env :: env where
  "ok_env =
     \<lparr>clock = (\<lambda>k. 1000 + k),
      postCard_reply = (\<lambda>cs.
        Inr \<lparr>cd_location = Some (''/1/cards/'' @ show_nat (100 + length cs)), cd_data = None\<rparr>),
      getCard_reply = (\<lambda>cs. Inr \<lparr>fc_number = Some (100 + length cs), fc_body = None\<rparr>),
      post_reply = (\<lambda>cs. None),
      getComments_reply = (\<lambda>cs. Inr []),
      getCards_reply = (\<lambda>cs. Inr []),
      getAllCardsFromColumn_reply = (\<lambda>cs. Inr []),
      writeFile_reply = (\<lambda>k. None),
      toLocaleDateString = (\<lambda>s. s)\<rparr>"

definition blank_world :: world where
  "blank_world = \<lparr>calls = [], ticks = 0, writes = 0, disk = None\<rparr>"

definition fresh_migration :: migration where
  "fresh_migration = fst (createMigrationState ok_env blank_world)"

definition marked_env :: env where
  "marked_env = ok_env
     \<lparr>getCards_reply := (\<lambda>cs. Inr
        [\<lparr>fc_number = Some 31, fc_body = Some (''Notes'' @ [nl, nl] @ ''#basecamp-id-482'')\<rparr>])\<rparr>"

definition triage_column :: bc_column where
  "triage_column =
     \<lparr>col_id = 1, col_title = Some ''Triage'', col_name = None,
      col_type = Some ''Kanban::Triage'', col_color = None\<rparr>"

definition in_progress_column :: bc_column where
  "in_progress_column =
     \<lparr>col_id = 2, col_title = Some ''In Progress'', col_name = None,
      col_type = Some ''Kanban::Column'', col_color = Some ''blue''\<rparr>"

text \<open>
  A destination that answers the creation of a column with neither a body nor a
  \<open>location\<close> header.
\<close>

definition bare_createColumn :: "nat \<Rightarrow> string option \<Rightarrow> string \<Rightarrow> js_error + fizzy_column" where
  "bare_createColumn n name color =
     createColumn_result \<lparr>cr_location = None, cr_data = None\<rparr> (Inr [])"

definition doing_column :: fizzy_column where
  "doing_column = \<lparr>fz_id = Some ''c9'', fz_name = Some '' in progress'', fz_title = None\<rparr>"

definition run_opts :: options where
  "run_opts = \<lparr>migrateComments = False, updateExisting = False, dryRun = False\<rparr>"

definition boom :: js_error where
  "boom = \<lparr>e_message = ''Request failed with status code 422'', e_statusCode = Some 422,
            e_response = None\<rparr>"




text \<open>
  The board after a clean run of five records: two in the column \<open>Triage\<close>, three in the
  column \<open>In Progress\<close>, each destination card with the marker of its source record.
\<close>

definition rerun_env :: env where
  "rerun_env = ok_env
     \<lparr>getCards_reply := (\<lambda>cs. Inr
        (map (\<lambda>k. \<lparr>fc_number = Some (100 + k),
                    fc_body = Some (''Card'' @ [nl, nl] @ basecampMarker k)\<rparr>) [1, 2, 3, 4, 5])),
      getAllCardsFromColumn_reply := (\<lambda>cs.
        case last cs of
          GetAllCardsFromColumn c \<Rightarrow>
            if c = 1 then Inr [plain_card 1 ''a'' 1, plain_card 2 ''b'' 1]
            else Inr [plain_card 3 ''c'' 2, plain_card 4 ''d'' 2, plain_card 5 ''e'' 2]
        | _ \<Rightarrow> Inr []),
      postCard_reply := (\<lambda>cs. Inl boom)\<rparr>"

definition dry_opts :: options where
  "dry_opts = \<lparr>migrateComments = False, updateExisting = False, dryRun = True\<rparr>"

text \<open>The same source before the first run: the board holds no card.\<close>

definition clean_env :: env where
  "clean_env = rerun_env
     \<lparr>getCards_reply := (\<lambda>cs. Inr []),
      postCard_reply := (\<lambda>cs.
        Inr \<lparr>cd_location = Some (''/1/cards/'' @ show_nat (100 + length cs)), cd_data = None\<rparr>)\<rparr>"

text \<open>
  A 404 answer whose JSON body has neither a \<open>status\<close> nor a \<open>headers\<close> member, as the
  HTTP library reports it.
\<close>

definition not_found :: http_error where
  "not_found =
     \<lparr>he_message = ''Request failed with status code 404'',
      he_response = Some \<lparr>rs_status = 404, rs_retry_after = None,
                          rs_data = Some \<lparr>rv_status = None, rv_headers = None\<rparr>\<rparr>\<rparr>"

definition always_not_found :: "nat \<Rightarrow> http_error + unit" where
  "always_not_found k = Inl not_found"




text \<open>
  A source record whose body mentions the marker of another record, and the board after
  its migration: the one card that \<open>mapCard\<close> wrote for it.
\<close>

definition mention_card :: bc_card where
  "mention_card =
     \<lparr>c_id = 482, c_title = ''Follow up'', c_content = Some ''see #basecamp-id-7'',
      c_assignees = [], c_steps = [],
      c_parent = Some \<lparr>par_id = 1, par_title = ''Triage''\<rparr>, c_completed = False,
      c_comments_count = 0\<rparr>"

definition roundtrip_env :: env where
  "roundtrip_env = ok_env
     \<lparr>getCards_reply := (\<lambda>cs. Inr
        [\<lparr>fc_number = Some 31,
          fc_body = Some (fc_description (mc_card (mapCard mention_card Map.empty Map.empty)))\<rparr>]),
      getAllCardsFromColumn_reply := (\<lambda>cs. Inr [mention_card])\<rparr>"

definition review_column :: bc_column where
  "review_column =
     \<lparr>col_id = 3, col_title = Some ''Review'', col_name = None,
      col_type = Some ''Kanban::Column'', col_color = Some ''Green''\<rparr>"

text \<open>
  A destination that answers the creation of a column with the location of the new column
  and no body, and lists the new column, with the id \<open>c7\<close>, when the client fetches the
  columns of the board.
\<close>

definition answering_createColumn :: "nat \<Rightarrow> string option \<Rightarrow> string \<Rightarrow> js_error + fizzy_column" where
  "answering_createColumn n name color =
     createColumn_result \<lparr>cr_location = Some ''/1/boards/5/columns/c7.json'', cr_data = None\<rparr>
       (Inr [doing_column, \<lparr>fz_id = Some ''c7'', fz_name = name, fz_title = None\<rparr>])"

text \<open>A destination column object without an id, and a destination that creates no column.\<close>

definition idless_column :: fizzy_column where
  "idless_column = \<lparr>fz_id = None, fz_name = Some ''In Progress'', fz_title = None\<rparr>"

definition failing_createColumn :: "nat \<Rightarrow> string option \<Rightarrow> string \<Rightarrow> js_error + fizzy_column" where
  "failing_createColumn n name color = Inl boom"

section \<open>Strings\<close>

lemma strip_prefix_app_None:
  "c \<notin> set P \<Longrightarrow> strip_prefix P xs = None \<Longrightarrow> strip_prefix P (xs @ c # ys) = None"
  by (induction P xs rule: strip_prefix.induct) auto

lemma strip_prefix_app_None_tl:
  assumes "xs \<noteq> []" and "c \<notin> set (tl P)" and "strip_prefix P xs = None"
  shows "strip_prefix P (xs @ c # ys) = None"
proof (cases P)
  case Nil
  with assms(3) show ?thesis by simp
next
  case (Cons p ps)
  obtain x xs' where xs: "xs = x # xs'" using assms(1) by (cases xs) auto
  show ?thesis
  proof (cases "p = x")
    case True
    with assms(3) have "strip_prefix ps xs' = None" by (simp add: Cons xs)
    moreover have "c \<notin> set ps" using assms(2) by (simp add: Cons)
    ultimately have "strip_prefix ps (xs' @ c # ys) = None"
      by (intro strip_prefix_app_None)
    with True show ?thesis by (simp add: Cons xs)
  next
    case False
    then show ?thesis by (simp add: Cons xs)
  qed
qed

lemma strip_prefix_app_Some:
  "strip_prefix P xs = Some r \<Longrightarrow> strip_prefix P (xs @ ys) = Some (r @ ys)"
  by (induction P xs rule: strip_prefix.induct) (auto split: if_splits)

lemma strip_prefix_self: "strip_prefix P (P @ r) = Some r"
  by (induction P) auto

lemma match_after_app:
  assumes "c \<notin> set (tl P)" "\<not> C c" "match_after P C xs = None"
  shows "match_after P C (xs @ c # ys) = match_after P C (c # ys)"
  using assms
proof (induction xs)
  case Nil
  then show ?case by simp
next
  case (Cons x xs)
  show ?case
  proof (cases "strip_prefix P (x # xs)")
    case None
    with Cons show ?thesis
      using strip_prefix_app_None_tl [of "x # xs" c P ys] by simp
  next
    case (Some r)
    with Cons.prems have tw: "takeWhile C r = []" and rest: "match_after P C xs = None"
      by (auto split: if_splits)
    have "takeWhile C (r @ c # ys) = []"
      using tw Cons.prems(2) by (cases r) (auto split: if_splits)
    with Some rest Cons show ?thesis
      using strip_prefix_app_Some [of P "x # xs" r "c # ys"] by simp
  qed
qed

lemma match_after_here:
  assumes "ds \<noteq> []" "\<forall>d \<in> set ds. C d" "P \<noteq> []"
  shows "match_after P C (P @ ds) = Some ds"
proof -
  have tw: "takeWhile C ds = ds" using assms(2) by (simp add: takeWhile_eq_all_conv)
  obtain p ps where P: "P = p # ps" using assms(3) by (cases P) auto
  have "strip_prefix P (P @ ds) = Some ds" by (rule strip_prefix_self)
  moreover have "takeWhile C ds \<noteq> []" using assms(1) by (subst tw)
  ultimately show ?thesis unfolding P by (simp add: tw)
qed

lemma is_digit_show_nat: "\<forall>d \<in> set (show_nat n). is_digit d"
proof (induction n rule: show_nat.induct)
  case (1 n)
  have d: "is_digit (char_of (48 + k))" if "k < 10" for k :: nat
    using that by (simp add: is_digit_def)
  show ?case
  proof (cases "n < 10")
    case True
    then show ?thesis by (subst show_nat.simps) (simp add: d)
  next
    case False
    with 1 show ?thesis by (subst show_nat.simps) (simp add: d)
  qed
qed

lemma show_nat_nonempty: "show_nat n \<noteq> []"
  by (subst show_nat.simps) simp

lemma marker_at_end:
  assumes "match_after ''#basecamp-id-'' is_digit pre = None"
  shows "match_after ''#basecamp-id-'' is_digit (pre @ basecampMarker n) = Some (show_nat n)"
proof -
  have "match_after ''#basecamp-id-'' is_digit (pre @ CHR ''#'' # ''basecamp-id-'' @ show_nat n)
        = match_after ''#basecamp-id-'' is_digit (CHR ''#'' # ''basecamp-id-'' @ show_nat n)"
    using assms by (intro match_after_app) (simp_all add: is_digit_def)
  also have "\<dots> = match_after ''#basecamp-id-'' is_digit (''#basecamp-id-'' @ show_nat n)"
    by simp
  also have "\<dots> = Some (show_nat n)"
    using show_nat_nonempty is_digit_show_nat by (intro match_after_here) simp_all
  finally show ?thesis by (simp add: basecampMarker_def)
qed

section \<open>Record transform\<close>

text \<open>
  C2, as the code has it. When the title is longer than 255 characters, the destination
  title is its first 255 characters. The destination body starts with the rest of the
  title; then, only if the source body with its surrounding white space trimmed off is not
  empty, come the divider and that trimmed body; the body ends with a blank line and the
  marker line \<open>#basecamp-id-<id>\<close>.
\<close>

theorem mapCard_title_overflow:
  assumes "length (c_title bc) > 255"
  shows "fc_title (mc_card (mapCard bc um cm)) = take 255 (c_title bc) \<and>
         fc_description (mc_card (mapCard bc um cm)) =
           drop 255 (c_title bc)
           @ (if convertBasecampToFizzyHTML (c_content bc) = [] then []
              else divider @ convertBasecampToFizzyHTML (c_content bc))
           @ [nl, nl] @ basecampMarker (c_id bc)"
  using assms
  by (simp add: mapCard_def overflow_title_def overflow_description_def add_marker_def
      MAX_TITLE_LENGTH_def convertBasecampToFizzyHTML_def Let_def)

theorem mapCard_title_overflow_witness:
  "length (c_title (long_title_card (Some ''body''))) > 255 \<and>
   fc_title (mc_card (mapCard (long_title_card (Some ''body'')) Map.empty Map.empty))
     = replicate 255 CHR ''a'' \<and>
   fc_description (mc_card (mapCard (long_title_card (Some ''body'')) Map.empty Map.empty))
     = ''b'' @ [nl, nl] @ ''---'' @ [nl, nl] @ ''body'' @ [nl, nl] @ ''#basecamp-id-7''"
proof -
  have l: "length (c_title (long_title_card (Some ''body''))) > 255"
    by (simp add: long_title_card_def)
  have b: "convertBasecampToFizzyHTML (Some ''body'') = ''body''"
    by (simp add: convertBasecampToFizzyHTML_def truthy_def trim_def is_space_def)
  have s: "show_nat 7 = ''7''" by code_simp
  show ?thesis
    using mapCard_title_overflow [OF l, of Map.empty Map.empty] l
    by (simp add: long_title_card_def b divider_def basecampMarker_def s)
qed

text \<open>
  C2 as stated fails on a source record without a body, where no divider is written, and
  on a body with surrounding white space, which is not kept as it is.
\<close>

theorem mapCard_title_overflow_counterexample:
  "fc_description (mc_card (mapCard (long_title_card None) Map.empty Map.empty))
     \<noteq> ''b'' @ divider @ [] @ [nl, nl] @ basecampMarker 7
   \<and> fc_description (mc_card (mapCard (long_title_card (Some '' x '')) Map.empty Map.empty))
     \<noteq> ''b'' @ divider @ '' x '' @ [nl, nl] @ basecampMarker 7"
  by (simp add: mapCard_def overflow_title_def overflow_description_def add_marker_def
      MAX_TITLE_LENGTH_def convertBasecampToFizzyHTML_def Let_def long_title_card_def
      truthy_def divider_def nl_def trim_def is_space_def)


section \<open>Duplicate scanner\<close>

lemma scan_cards_append:
  "scan_cards (xs @ ys) ex = scan_cards ys (scan_cards xs ex)"
  by (induction xs arbitrary: ex) (auto split: option.splits)

lemma scan_cards_other:
  "\<forall>c \<in> set cs. extractBasecampId (fc_body c) \<noteq> Some k \<Longrightarrow> scan_cards cs ex k = ex k"
  by (induction cs arbitrary: ex) (auto simp add: extractBasecampId_def split: option.splits)

text \<open>
  When no match of \<open>#basecamp-id-<digits>\<close> stands before the marker at the end of a body,
  the scanner recovers the id of that marker; when the \<open>getCards\<close> call succeeds and no later
  card of the list yields the same id, the map of existing records sends the id to the number
  of that card.
\<close>

lemma marker_recovered_when_first:
  assumes "getCards_reply e (calls w @ [GetCards]) = Inr (before @ c # after)"
    and "fc_body c = Some (pre @ basecampMarker n)"
    and "match_after ''#basecamp-id-'' is_digit pre = None"
    and "\<forall>c' \<in> set after. extractBasecampId (fc_body c') \<noteq> Some (show_nat n)"
  shows "extractBasecampId (fc_body c) = Some (show_nat n) \<and>
         fst (findExistingMigratedCards e w) (show_nat n) = fc_number c"
proof -
  have m: "match_after ''#basecamp-id-'' is_digit (pre @ basecampMarker n) = Some (show_nat n)"
    using assms(3) by (rule marker_at_end)
  have t: "truthy (fc_body c)" by (simp add: assms(2) truthy_def basecampMarker_def)
  have x: "extractBasecampId (fc_body c) = Some (show_nat n)"
    using m t by (simp add: extractBasecampId_def assms(2))
  have "scan_cards (before @ c # after) Map.empty (show_nat n)
        = scan_cards after (scan_cards [c] (scan_cards before Map.empty)) (show_nat n)"
    using scan_cards_append [of before "[c] @ after"] scan_cards_append [of "[c]" after]
    by simp
  also have "\<dots> = scan_cards [c] (scan_cards before Map.empty) (show_nat n)"
    using assms(4) by (rule scan_cards_other)
  also have "\<dots> = fc_number c"
    using m t by (simp add: assms(2))
  finally show ?thesis
    using x assms(1) by (simp add: findExistingMigratedCards_def invoke_def Let_def)
qed

lemma marker_recovered_example:
  "extractBasecampId (Some (''Notes'' @ [nl, nl] @ ''#basecamp-id-482'')) = Some ''482'' \<and>
   fst (findExistingMigratedCards marked_env blank_world) ''482'' = Some 31"
proof -
  have s: "show_nat 482 = ''482''" by code_simp
  have p: "match_after ''#basecamp-id-'' is_digit (''Notes'' @ [nl, nl]) = None"
    by (simp add: nl_def)
  show ?thesis
    using marker_recovered_when_first [of marked_env blank_world "[]"
        "\<lparr>fc_number = Some 31, fc_body = Some (''Notes'' @ [nl, nl] @ ''#basecamp-id-482'')\<rparr>"
        "[]" "''Notes'' @ [nl, nl]" 482] p
    by (simp add: marked_env_def ok_env_def blank_world_def basecampMarker_def s)
qed

text \<open>
  C3 on the code. The scanner takes the leftmost match of \<open>#basecamp-id-<digits>\<close>, not
  the marker at the end. For source record 482 whose body mentions \<open>#basecamp-id-7\<close>,
  \<open>mapCard\<close> writes a body that ends in a blank line and \<open>#basecamp-id-482\<close>; from that body
  the scanner recovers 7, the map of existing records has no entry for 482, and the next run
  creates the record a second time.
\<close>

theorem marker_roundtrip_reads_earlier_id:
  "fc_description (mc_card (mapCard mention_card Map.empty Map.empty))
     = ''see #basecamp-id-7'' @ [nl, nl] @ ''#basecamp-id-482''
   \<and> extractBasecampId (Some (fc_description (mc_card (mapCard mention_card Map.empty Map.empty))))
     = Some ''7''
   \<and> fst (findExistingMigratedCards roundtrip_env blank_world) ''482'' = None
   \<and> fst (findExistingMigratedCards roundtrip_env blank_world) ''7'' = Some 31
   \<and> (case phase4_cards roundtrip_env run_opts 10 [triage_column] fresh_migration blank_world of
         None \<Rightarrow> False
       | Some (r, m', w') \<Rightarrow>
           r = None \<and> skipped_cards (progress m') = 0
           \<and> length (filter is_create (calls w')) = 1)"
  by code_simp

section \<open>Finalization\<close>

text \<open>
  C5. Finalization sets the status to \<open>partial\<close> exactly when \<open>failed_cards > 0\<close> and to
  \<open>completed\<close> otherwise, and stamps \<open>completed_at\<close> in both cases; when the write of the
  state file succeeds, the persisted state is that state.
\<close>

theorem finalization_status:
  assumes "writeFile_reply e (writes w) = None"
  shows "case finish_run e m w of
           (r, m', w') \<Rightarrow>
             r = None \<and> disk w' = Some m' \<and>
             (status m' = ''partial'') = (failed_cards (progress m) > 0) \<and>
             (status m' = ''completed'') = (\<not> failed_cards (progress m) > 0) \<and>
             completed_at m' \<noteq> None"
  using assms
  by (simp add: finish_run_def phase5_finalize_def completeMigration_def
      saveMigrationState_def now_def updateProgress_phase_def Let_def)

theorem finalization_status_witness:
  "writeFile_reply ok_env (writes blank_world) = None \<and>
   status (fst (snd (finish_run ok_env fresh_migration blank_world))) = ''completed'' \<and>
   status (fst (snd (finish_run ok_env
      (fresh_migration\<lparr>progress := (progress fresh_migration)\<lparr>failed_cards := 2\<rparr>\<rparr>)
      blank_world))) = ''partial'' \<and>
   completed_at (fst (snd (finish_run ok_env fresh_migration blank_world))) \<noteq> None"
proof -
  have h: "writeFile_reply ok_env (writes blank_world) = None"
    by (simp add: ok_env_def)
  have f: "failed_cards (progress fresh_migration) = 0"
    by (simp add: fresh_migration_def createMigrationState_def now_def Let_def)
  show ?thesis
    using finalization_status [OF h, of fresh_migration]
      finalization_status [OF h,
        of "fresh_migration\<lparr>progress := (progress fresh_migration)\<lparr>failed_cards := 2\<rparr>\<rparr>"]
      h f
    by (auto split: prod.splits)
qed


section \<open>Column mapper\<close>

lemma getColumnAction_type:
  "a_type (getColumnAction t cid) \<in> {KEEP_TRIAGE, NOT_NOW, CLOSE, TRIAGE_TO_COLUMN}"
  by (simp add: getColumnAction_def)

lemma action_types_distinct:
  "distinct [KEEP_TRIAGE, NOT_NOW, CLOSE, TRIAGE_TO_COLUMN]"
  by (simp add: KEEP_TRIAGE_def NOT_NOW_def CLOSE_def TRIAGE_TO_COLUMN_def)

lemma getColumnAction_REGULAR:
  "getColumnAction REGULAR cid = \<lparr>a_type = TRIAGE_TO_COLUMN, a_target = cid\<rparr>"
  by (simp add: getColumnAction_def REGULAR_def TRIAGE_def NOT_NOW_COLUMN_def DONE_def)

lemma getColumnAction_special:
  "special_type t \<Longrightarrow> a_type (getColumnAction t None) \<in> {KEEP_TRIAGE, NOT_NOW, CLOSE}
     \<and> a_target (getColumnAction t None) = None"
  by (auto simp add: getColumnAction_def special_type_def)

lemma TRIAGE_TO_COLUMN_not_special:
  "special_type t \<Longrightarrow> a_type (getColumnAction t None) \<noteq> TRIAGE_TO_COLUMN"
  by (auto simp add: getColumnAction_def special_type_def KEEP_TRIAGE_def NOT_NOW_def CLOSE_def
      TRIAGE_TO_COLUMN_def)

lemma findMatchingColumn_mem:
  "findMatchingColumn n fzs = Some fz \<Longrightarrow> fz \<in> set fzs"
  by (auto simp add: findMatchingColumn_def find_Some_iff)

lemma mapColumns_loop_dry:
  "\<exists>res new. mapColumns_loop reply True fzs bcs acc = Inr res
     \<and> cm_calls res = cm_calls acc \<and> cm_created res = cm_created acc
     \<and> cm_actions res = cm_actions acc @ new \<and> list_all2 (dry_ok fzs) bcs new
     \<and> dom (cm_mappings res) = dom (cm_mappings acc) \<union> col_id ` set bcs"
proof (induction bcs arbitrary: acc)
  case Nil
  then show ?case by simp
next
  case (Cons col bcs)
  define rp where "rp =
    (if special_type (detectColumnType (Some col)) then
       \<lparr>rp_basecamp_id = col_id col, rp_basecamp_name = or_else (col_title col) (col_name col),
        rp_fizzy_column_id = None, rp_fizzy_column_title = None,
        rp_action = getColumnAction (detectColumnType (Some col)) None\<rparr>
     else case findMatchingColumn (or_else (col_title col) (col_name col)) fzs of
       Some fz \<Rightarrow> regular_report col fz
     | None \<Rightarrow> regular_report col \<lparr>fz_id = Some (''dry-run-'' @ show_nat (col_id col)),
                           fz_name = or_else (col_title col) (col_name col), fz_title = None\<rparr>)"
  have step: "mapColumns_loop reply True fzs (col # bcs) acc
      = mapColumns_loop reply True fzs bcs (record_column rp acc)"
    by (simp add: rp_def Let_def split: option.splits)
  have ok: "dry_ok fzs col rp"
    using getColumnAction_special [of "detectColumnType (Some col)"]
    by (auto simp add: rp_def dry_ok_def regular_report_def getColumnAction_REGULAR
        split: option.splits)
  from Cons.IH [of "record_column rp acc"] obtain res new where
    r: "mapColumns_loop reply True fzs bcs (record_column rp acc) = Inr res"
      "cm_calls res = cm_calls (record_column rp acc)"
      "cm_created res = cm_created (record_column rp acc)"
      "cm_actions res = cm_actions (record_column rp acc) @ new"
      "list_all2 (dry_ok fzs) bcs new"
      "dom (cm_mappings res) = dom (cm_mappings (record_column rp acc)) \<union> col_id ` set bcs"
    by blast
  have id: "rp_basecamp_id rp = col_id col" using ok by (simp add: dry_ok_def)
  show ?case
    unfolding step
    apply (rule exI [of _ res], rule exI [of _ "rp # new"])
    using r ok id by (auto simp add: record_column_def)
qed

lemma map_of_snoc_rev:
  "m ++ map_of (rev (x # xs)) = m(fst x \<mapsto> snd x) ++ map_of (rev xs)"
proof -
  have "map_of (rev (x # xs)) = map_of [x] ++ map_of (rev xs)"
    by simp
  moreover have "m ++ (map_of [x] ++ map_of (rev xs)) = (m ++ map_of [x]) ++ map_of (rev xs)"
    by simp
  moreover have "m ++ map_of [x] = m(fst x \<mapsto> snd x)"
    by (cases x) simp
  ultimately show ?thesis by simp
qed

lemma report_of_Cons:
  "report_of False fzs (fz # made) (Suc k) c = report_of False fzs made k c"
  by (simp add: report_of_def column_used_def Let_def split: option.splits)

lemma report_of_dry:
  "report_of True fzs made k c = report_of True fzs [] 0 c"
  by (simp add: report_of_def column_used_def)

lemma report_of_matched:
  "\<not> to_create fzs c \<Longrightarrow> report_of dry fzs made k c = report_of dry fzs [] 0 c"
  by (auto simp add: report_of_def column_used_def to_create_def)

lemma report_of_created:
  "to_create fzs c \<Longrightarrow> report_of False fzs (fz # made) 0 c = regular_report c fz"
  by (simp add: report_of_def column_used_def to_create_def regular_report_def
      getColumnAction_REGULAR columnName_def)

lemma mapColumns_loop_step:
  "\<not> to_create fzs col \<or> dry \<Longrightarrow>
     mapColumns_loop reply dry fzs (col # bcs) acc
       = mapColumns_loop reply dry fzs bcs (record_column (report_of dry fzs [] 0 col) acc)"
  by (auto simp add: Let_def report_of_def column_used_def to_create_def regular_report_def
      getColumnAction_REGULAR columnName_def placeholder_def split: option.splits)

lemma mapColumns_loop_create:
  "to_create fzs col \<Longrightarrow> \<not> dry \<Longrightarrow>
     mapColumns_loop reply dry fzs (col # bcs) acc
       = (case reply (length (cm_calls acc)) (columnName col)
                 (mapBasecampColorToFizzy (col_color col)) of
            Inl error \<Rightarrow> Inl error
          | Inr fz \<Rightarrow>
              mapColumns_loop reply dry fzs bcs
                (record_column (regular_report col fz)
                   (acc\<lparr>cm_created := cm_created acc @ [fz],
                        cm_calls := cm_calls acc @
                          [(columnName col, mapBasecampColorToFizzy (col_color col))]\<rparr>)))"
  by (auto simp add: Let_def to_create_def columnName_def split: sum.splits)

lemma reports_Cons:
  "map (\<lambda>j. f (take j (col # bcs)) ((col # bcs) ! j)) [0 ..< length (col # bcs)]
     = f [] col # map (\<lambda>j. f (col # take j bcs) (bcs ! j)) [0 ..< length bcs]"
proof -
  have "[0 ..< length (col # bcs)] = 0 # map Suc [0 ..< length bcs]"
    by (simp add: upt_conv_Cons map_Suc_upt del: upt_Suc)
  then show ?thesis by (simp add: comp_def del: upt_Suc)
qed

lemma mapColumns_loop_reports:
  assumes "mapColumns_loop reply dry fzs bcs acc = Inr res"
    and "length (cm_created acc) = length (cm_calls acc)"
  shows "\<exists>made.
      cm_created res = cm_created acc @ made
      \<and> cm_calls res = cm_calls acc @ (if dry then [] else creation_calls fzs bcs)
      \<and> length made = (if dry then 0 else length (creation_calls fzs bcs))
      \<and> (\<forall>k < length made.
            reply (length (cm_calls acc) + k) (fst (creation_calls fzs bcs ! k))
              (snd (creation_calls fzs bcs ! k)) = Inr (made ! k))
      \<and> cm_actions res = cm_actions acc @
            map (\<lambda>j. report_of dry fzs made (length (filter (to_create fzs) (take j bcs))) (bcs ! j))
              [0 ..< length bcs]
      \<and> cm_mappings res = cm_mappings acc ++
            map_of (rev (map (\<lambda>rp. (rp_basecamp_id rp, rp_action rp))
              (map (\<lambda>j. report_of dry fzs made (length (filter (to_create fzs) (take j bcs))) (bcs ! j))
              [0 ..< length bcs])))"
  using assms
proof (induction bcs arbitrary: acc)
  case Nil
  then show ?case by (simp add: creation_calls_def)
next
  case (Cons col bcs)
  let ?f = "\<lambda>made before c. report_of dry fzs made (length (filter (to_create fzs) before)) c"
  note shift = reports_Cons [of "?f made" col bcs for made]
  show ?case
  proof (cases "\<not> to_create fzs col \<or> dry")
    case True
    let ?rp = "report_of dry fzs [] 0 col"
    let ?acc = "record_column ?rp acc"
    from Cons.prems(1) have run: "mapColumns_loop reply dry fzs bcs ?acc = Inr res"
      by (simp only: mapColumns_loop_step [OF True])
    have len: "length (cm_created ?acc) = length (cm_calls ?acc)"
      using Cons.prems(2) by (simp add: record_column_def)
    from Cons.IH [OF run len] obtain made where m:
      "cm_created res = cm_created ?acc @ made"
      "cm_calls res = cm_calls ?acc @ (if dry then [] else creation_calls fzs bcs)"
      "length made = (if dry then 0 else length (creation_calls fzs bcs))"
      "\<forall>k < length made.
            reply (length (cm_calls ?acc) + k) (fst (creation_calls fzs bcs ! k))
              (snd (creation_calls fzs bcs ! k)) = Inr (made ! k)"
      "cm_actions res = cm_actions ?acc @ map (\<lambda>j. ?f made (take j bcs) (bcs ! j)) [0 ..< length bcs]"
      "cm_mappings res = cm_mappings ?acc ++
            map_of (rev (map (\<lambda>rp. (rp_basecamp_id rp, rp_action rp))
              (map (\<lambda>j. ?f made (take j bcs) (bcs ! j)) [0 ..< length bcs])))"
      by blast
    have first: "?f made [] col = ?rp"
      using True report_of_dry [of fzs made 0 col] report_of_matched [of fzs col dry made 0]
      by auto
    have rest: "?f made (col # before) c = ?f made before c" for before c
      using True report_of_dry [of fzs made _ c] by (cases dry) auto
    have calls: "(if dry then [] else creation_calls fzs (col # bcs))
                 = (if dry then [] else creation_calls fzs bcs)"
      using True by (auto simp add: creation_calls_def)
    have calls': "creation_calls fzs (col # bcs) = creation_calls fzs bcs" if "\<not> dry"
      using True that by (simp add: creation_calls_def)
    show ?thesis
      apply (rule exI [of _ made])
      apply (simp only: shift first rest calls)
      using m calls' by (cases dry) (simp_all add: record_column_def map_of_snoc_rev del: upt_Suc)
  next
    case False
    then have tc: "to_create fzs col" and nd: "\<not> dry" by simp_all
    let ?name = "columnName col"
    let ?color = "mapBasecampColorToFizzy (col_color col)"
    have "(case reply (length (cm_calls acc)) ?name ?color of
            Inl error \<Rightarrow> Inl error
          | Inr fz \<Rightarrow>
              mapColumns_loop reply dry fzs bcs
                (record_column (regular_report col fz)
                   (acc\<lparr>cm_created := cm_created acc @ [fz],
                        cm_calls := cm_calls acc @ [(?name, ?color)]\<rparr>))) = Inr res"
      using Cons.prems(1) by (simp only: mapColumns_loop_create [OF tc nd])
    then obtain fz where
      fz: "reply (length (cm_calls acc)) ?name ?color = Inr fz"
      and run: "mapColumns_loop reply dry fzs bcs
                  (record_column (regular_report col fz)
                     (acc\<lparr>cm_created := cm_created acc @ [fz],
                          cm_calls := cm_calls acc @ [(?name, ?color)]\<rparr>)) = Inr res"
      by (auto split: sum.splits)
    let ?acc = "record_column (regular_report col fz)
                     (acc\<lparr>cm_created := cm_created acc @ [fz],
                          cm_calls := cm_calls acc @ [(?name, ?color)]\<rparr>)"
    have len: "length (cm_created ?acc) = length (cm_calls ?acc)"
      using Cons.prems(2) by (simp add: record_column_def)
    from Cons.IH [OF run len] obtain made where m:
      "cm_created res = cm_created ?acc @ made"
      "cm_calls res = cm_calls ?acc @ (if dry then [] else creation_calls fzs bcs)"
      "length made = (if dry then 0 else length (creation_calls fzs bcs))"
      "\<forall>k < length made.
            reply (length (cm_calls ?acc) + k) (fst (creation_calls fzs bcs ! k))
              (snd (creation_calls fzs bcs ! k)) = Inr (made ! k)"
      "cm_actions res = cm_actions ?acc @ map (\<lambda>j. ?f made (take j bcs) (bcs ! j)) [0 ..< length bcs]"
      "cm_mappings res = cm_mappings ?acc ++
            map_of (rev (map (\<lambda>rp. (rp_basecamp_id rp, rp_action rp))
              (map (\<lambda>j. ?f made (take j bcs) (bcs ! j)) [0 ..< length bcs])))"
      by blast
    have first: "?f (fz # made) [] col = regular_report col fz"
      using tc nd report_of_created [of fzs col fz made] by simp
    have rest: "?f (fz # made) (col # before) c = ?f made before c" for before c
      using tc nd report_of_Cons [of fzs fz made _ c] by simp
    have calls: "creation_calls fzs (col # bcs) = (?name, ?color) # creation_calls fzs bcs"
      using tc by (simp add: creation_calls_def)
    have replies: "\<forall>k < length (fz # made).
            reply (length (cm_calls acc) + k) (fst (creation_calls fzs (col # bcs) ! k))
              (snd (creation_calls fzs (col # bcs) ! k)) = Inr ((fz # made) ! k)"
    proof (intro allI impI)
      fix k assume "k < length (fz # made)"
      then show "reply (length (cm_calls acc) + k) (fst (creation_calls fzs (col # bcs) ! k))
              (snd (creation_calls fzs (col # bcs) ! k)) = Inr ((fz # made) ! k)"
        using fz m(4) by (cases k) (auto simp add: calls record_column_def)
    qed
    have id: "rp_basecamp_id (regular_report col fz) = col_id col"
      by (simp add: regular_report_def)
    show ?thesis
      apply (rule exI [of _ "fz # made"])
      apply (simp only: shift first rest)
      using m replies nd by (simp add: record_column_def map_of_snoc_rev calls del: upt_Suc)
  qed
qed
lemma mapColumns_loop_returns:
  assumes "\<forall>k name color. \<exists>fz. reply k name color = Inr fz"
  shows "\<exists>res. mapColumns_loop reply dry fzs bcs acc = Inr res"
proof (induction bcs arbitrary: acc)
  case Nil
  then show ?case by simp
next
  case (Cons col bcs)
  show ?case
  proof (cases "\<not> to_create fzs col \<or> dry")
    case True
    then show ?thesis by (simp only: mapColumns_loop_step [OF True] Cons.IH)
  next
    case False
    then have tc: "to_create fzs col" and nd: "\<not> dry" by simp_all
    from assms obtain fz where
      "reply (length (cm_calls acc)) (columnName col) (mapBasecampColorToFizzy (col_color col))
         = Inr fz"
      by blast
    then show ?thesis
      by (simp only: mapColumns_loop_create [OF tc nd] sum.case Cons.IH)
  qed
qed

lemma filter_take_less:
  assumes "j < length xs" and "P (xs ! j)"
  shows "length (filter P (take j xs)) < length (filter P xs)"
proof -
  have "xs = take j xs @ xs ! j # drop (Suc j) xs"
    using assms(1) by (rule id_take_nth_drop)
  then have "filter P xs = filter P (take j xs) @ xs ! j # filter P (drop (Suc j) xs)"
    using assms(2) by (metis filter.simps(2) filter_append)
  then show ?thesis by simp
qed

lemma report_of_target:
  assumes "\<forall>c \<in> set fzs \<union> set created. fz_id c \<noteq> None"
    and "to_create fzs col \<and> \<not> dry \<longrightarrow> k < length created"
    and "a_type (rp_action (report_of dry fzs created k col)) = TRIAGE_TO_COLUMN"
  shows "a_target (rp_action (report_of dry fzs created k col)) \<noteq> None"
proof (cases "special_type (detectColumnType (Some col))")
  case True
  with assms(3) TRIAGE_TO_COLUMN_not_special [OF True] show ?thesis
    by (simp add: report_of_def)
next
  case False
  show ?thesis
  proof (cases "findMatchingColumn (columnName col) fzs")
    case None
    with False assms(1,2) show ?thesis
      by (auto simp add: report_of_def column_used_def placeholder_def to_create_def Let_def)
  next
    case (Some fz)
    with False assms(1) findMatchingColumn_mem [OF Some] show ?thesis
      by (auto simp add: report_of_def column_used_def Let_def)
  qed
qed

lemma ran_map_of_subset: "ran (map_of xs) \<subseteq> snd ` set xs"
proof
  fix a assume "a \<in> ran (map_of xs)"
  then obtain k where "map_of xs k = Some a" by (auto simp add: ran_def)
  then have "(k, a) \<in> set xs" by (rule map_of_SomeD)
  then show "a \<in> snd ` set xs" by force
qed

lemma map_of_rev_distinct:
  assumes "distinct (map fst xs)"
  shows "map_of (rev xs) = map_of xs"
proof -
  have "distinct (map fst (rev xs))"
    using assms by (simp only: rev_map [symmetric] distinct_rev)
  then show ?thesis
    using assms by (simp add: map_of_inject_set)
qed

lemma report_of_id: "rp_basecamp_id (report_of dry fzs created k col) = col_id col"
  by (simp add: report_of_def Let_def)

text \<open>
  C7, as the code has it. For every column-type tag \<open>getColumnAction\<close> returns one of the
  four actions, which are pairwise different. The column mapper returns unless a creation
  of a column fails. When it returns, it has called \<open>createColumn\<close>, outside a dry run, once
  for every regular source column without a matching destination column, in the order of
  the source columns, with the name of the column and the colour mapped from its colour,
  and never in a dry run; it reports every source column in order, a regular column with a
  placement whose target is the id of the destination column that stands for it: the first
  match of \<open>findMatchingColumn\<close>, else the placeholder in a dry run and the object that its
  \<open>createColumn\<close> call returned otherwise; the map holds for every source column id the
  action of the last report with that id, which for distinct ids is the action of the
  column. The target of every placement into a column is there whenever the destination
  columns and the created column objects carry an id.
\<close>

theorem column_action_complete:
  "a_type (getColumnAction columnType columnId) \<in> {KEEP_TRIAGE, NOT_NOW, CLOSE, TRIAGE_TO_COLUMN}
   \<and> distinct [KEEP_TRIAGE, NOT_NOW, CLOSE, TRIAGE_TO_COLUMN]
   \<and> ((\<forall>k name color. \<exists>fz. reply k name color = Inr fz) \<longrightarrow>
        (\<exists>r. mapColumns reply dry bcs fzs = Inr r))
   \<and> (mapColumns reply dry bcs fzs = Inr res \<longrightarrow>
        cm_calls res = (if dry then [] else creation_calls fzs bcs)
        \<and> length (cm_created res) = length (cm_calls res)
        \<and> (\<forall>k < length (cm_calls res).
              reply k (fst (cm_calls res ! k)) (snd (cm_calls res ! k)) = Inr (cm_created res ! k))
        \<and> length (cm_actions res) = length bcs
        \<and> (\<forall>j < length bcs.
              cm_actions res ! j =
                report_of dry fzs (cm_created res)
                  (length (filter (to_create fzs) (take j bcs))) (bcs ! j))
        \<and> cm_mappings res
            = map_of (rev (map (\<lambda>rp. (rp_basecamp_id rp, rp_action rp)) (cm_actions res)))
        \<and> (distinct (map col_id bcs) \<longrightarrow>
              (\<forall>j < length bcs.
                 cm_mappings res (col_id (bcs ! j)) = Some (rp_action (cm_actions res ! j))))
        \<and> ((\<forall>c \<in> set fzs \<union> set (cm_created res). fz_id c \<noteq> None) \<longrightarrow>
              (\<forall>rp \<in> set (cm_actions res).
                 a_type (rp_action rp) = TRIAGE_TO_COLUMN \<longrightarrow> a_target (rp_action rp) \<noteq> None)
              \<and> (\<forall>a \<in> ran (cm_mappings res).
                    a_type a = TRIAGE_TO_COLUMN \<longrightarrow> a_target a \<noteq> None)))"
proof (intro conjI impI)
  show "a_type (getColumnAction columnType columnId) \<in> {KEEP_TRIAGE, NOT_NOW, CLOSE, TRIAGE_TO_COLUMN}"
    by (rule getColumnAction_type)
  show "distinct [KEEP_TRIAGE, NOT_NOW, CLOSE, TRIAGE_TO_COLUMN]"
    by (rule action_types_distinct)
next
  assume "\<forall>k name color. \<exists>fz. reply k name color = Inr fz"
  then show "\<exists>r. mapColumns reply dry bcs fzs = Inr r"
    unfolding mapColumns_def by (rule mapColumns_loop_returns)
next
  assume run: "mapColumns reply dry bcs fzs = Inr res"
  let ?rep = "\<lambda>made j. report_of dry fzs made (length (filter (to_create fzs) (take j bcs))) (bcs ! j)"
  let ?key = "\<lambda>rp. (rp_basecamp_id rp, rp_action rp)"
  have "\<exists>made. cm_created res = made
      \<and> cm_calls res = (if dry then [] else creation_calls fzs bcs)
      \<and> length made = (if dry then 0 else length (creation_calls fzs bcs))
      \<and> (\<forall>k < length made.
            reply k (fst (creation_calls fzs bcs ! k)) (snd (creation_calls fzs bcs ! k))
              = Inr (made ! k))
      \<and> cm_actions res = map (?rep made) [0 ..< length bcs]
      \<and> cm_mappings res = map_of (rev (map ?key (map (?rep made) [0 ..< length bcs])))"
    using mapColumns_loop_reports [OF run [unfolded mapColumns_def]] by simp
  then have made: "cm_calls res = (if dry then [] else creation_calls fzs bcs)"
    "length (cm_created res) = (if dry then 0 else length (creation_calls fzs bcs))"
    "\<forall>k < length (cm_created res).
        reply k (fst (creation_calls fzs bcs ! k)) (snd (creation_calls fzs bcs ! k))
          = Inr (cm_created res ! k)"
    "cm_actions res = map (?rep (cm_created res)) [0 ..< length bcs]"
    "cm_mappings res = map_of (rev (map ?key (map (?rep (cm_created res)) [0 ..< length bcs])))"
    by blast+
  show calls: "cm_calls res = (if dry then [] else creation_calls fzs bcs)"
    by (rule made(1))
  show len: "length (cm_created res) = length (cm_calls res)"
    using made(1,2) by simp
  show "\<forall>k < length (cm_calls res).
          reply k (fst (cm_calls res ! k)) (snd (cm_calls res ! k)) = Inr (cm_created res ! k)"
  proof (cases dry)
    case True
    with made(1) show ?thesis by simp
  next
    case False
    with made(1,2,3) show ?thesis by simp
  qed
  show alen: "length (cm_actions res) = length bcs"
    by (simp only: made(4) length_map length_upt diff_zero)
  have rep: "cm_actions res ! j = ?rep (cm_created res) j" if "j < length bcs" for j
    using that by (simp only: made(4)) simp
  then show "\<forall>j < length bcs. cm_actions res ! j = ?rep (cm_created res) j"
    by blast
  show maps: "cm_mappings res = map_of (rev (map ?key (cm_actions res)))"
    by (simp only: made(4,5))
  have key: "?key (cm_actions res ! j) = (col_id (bcs ! j), rp_action (cm_actions res ! j))"
    if "j < length bcs" for j
    by (simp only: rep [OF that] report_of_id)
  have keys: "map fst (map ?key (cm_actions res)) = map col_id bcs"
  proof (rule nth_equalityI)
    show "length (map fst (map ?key (cm_actions res))) = length (map col_id bcs)"
      using alen by simp
    fix j assume "j < length (map fst (map ?key (cm_actions res)))"
    then have j: "j < length bcs" using alen by simp
    then show "map fst (map ?key (cm_actions res)) ! j = map col_id bcs ! j"
      using alen key [OF j] by simp
  qed
  {
    assume d: "distinct (map col_id bcs)"
    with keys have dk: "distinct (map fst (map ?key (cm_actions res)))" by simp
    have eq: "cm_mappings res = map_of (map ?key (cm_actions res))"
      unfolding maps using dk by (rule map_of_rev_distinct)
    have "map_of (map ?key (cm_actions res)) (col_id (bcs ! j))
        = Some (rp_action (cm_actions res ! j))" if j: "j < length bcs" for j
    proof -
      have "?key (cm_actions res ! j) \<in> set (map ?key (cm_actions res))"
        using j alen by simp
      then have "(col_id (bcs ! j), rp_action (cm_actions res ! j))
                   \<in> set (map ?key (cm_actions res))"
        by (simp only: key [OF j])
      with dk show ?thesis by (rule map_of_is_SomeI)
    qed
    then show "\<forall>j < length bcs.
        cm_mappings res (col_id (bcs ! j)) = Some (rp_action (cm_actions res ! j))"
      by (simp only: eq) blast
  }
  {
    assume ids: "\<forall>c \<in> set fzs \<union> set (cm_created res). fz_id c \<noteq> None"
    have t: "a_target (rp_action rp) \<noteq> None"
      if mem: "rp \<in> set (cm_actions res)" and ty: "a_type (rp_action rp) = TRIAGE_TO_COLUMN"
      for rp
    proof -
      from mem obtain j where "j < length (cm_actions res)" and "cm_actions res ! j = rp"
        by (auto simp add: in_set_conv_nth)
      then have j: "j < length bcs" and rp: "rp = ?rep (cm_created res) j"
        using alen rep by simp_all
      have bound: "to_create fzs (bcs ! j) \<and> \<not> dry \<longrightarrow>
              length (filter (to_create fzs) (take j bcs)) < length (cm_created res)"
        using filter_take_less [OF j, of "to_create fzs"] made(2)
        by (simp add: creation_calls_def)
      from ty have ty': "a_type (rp_action (?rep (cm_created res) j)) = TRIAGE_TO_COLUMN"
        by (simp only: rp)
      show ?thesis
        unfolding rp using ids bound ty' by (rule report_of_target)
    qed
    then show "\<forall>rp \<in> set (cm_actions res).
        a_type (rp_action rp) = TRIAGE_TO_COLUMN \<longrightarrow> a_target (rp_action rp) \<noteq> None"
      by blast
    show "\<forall>a \<in> ran (cm_mappings res). a_type a = TRIAGE_TO_COLUMN \<longrightarrow> a_target a \<noteq> None"
    proof (intro ballI impI)
      fix a assume a: "a \<in> ran (cm_mappings res)" and ty: "a_type a = TRIAGE_TO_COLUMN"
      have "ran (cm_mappings res) \<subseteq> snd ` set (rev (map ?key (cm_actions res)))"
        unfolding maps by (rule ran_map_of_subset)
      with a have "a \<in> snd ` set (rev (map ?key (cm_actions res)))" by blast
      then obtain rp where "rp \<in> set (cm_actions res)" "a = rp_action rp" by auto
      with t ty show "a_target a \<noteq> None" by blast
    qed
  }
qed

theorem column_action_complete_witness:
  "case mapColumns answering_createColumn False
          [triage_column, in_progress_column, review_column] [doing_column] of
     Inl error \<Rightarrow> False
   | Inr res \<Rightarrow>
       cm_calls res = [(Some ''Review'', ''var(--color-card-4)'')]
       \<and> cm_created res = [\<lparr>fz_id = Some ''c7'', fz_name = Some ''Review'', fz_title = None\<rparr>]
       \<and> cm_mappings res 1 = Some \<lparr>a_type = KEEP_TRIAGE, a_target = None\<rparr>
       \<and> cm_mappings res 2 = Some \<lparr>a_type = TRIAGE_TO_COLUMN, a_target = Some ''c9''\<rparr>
       \<and> cm_mappings res 3 = Some \<lparr>a_type = TRIAGE_TO_COLUMN, a_target = Some ''c7''\<rparr>
       \<and> map rp_fizzy_column_id (cm_actions res) = [None, Some ''c9'', Some ''c7'']
       \<and> cm_actions res ! 2 = report_of False [doing_column] (cm_created res) 0 review_column
       \<and> a_target (rp_action (cm_actions res ! 2)) \<noteq> None"
proof -
  let ?bcs = "[triage_column, in_progress_column, review_column]"
  have total: "\<forall>k name color. \<exists>fz. answering_createColumn k name color = Inr fz"
    by (simp add: answering_createColumn_def createColumn_result_def truthy_def doing_column_def)
  note th = column_action_complete [where reply = answering_createColumn and dry = False
      and bcs = "?bcs" and fzs = "[doing_column]"]
  from th total obtain res where
    r: "mapColumns answering_createColumn False ?bcs [doing_column] = Inr res"
    by blast
  have ev: "case mapColumns answering_createColumn False ?bcs [doing_column] of
     Inl error \<Rightarrow> False
   | Inr res \<Rightarrow>
       cm_calls res = [(Some ''Review'', ''var(--color-card-4)'')]
       \<and> cm_created res = [\<lparr>fz_id = Some ''c7'', fz_name = Some ''Review'', fz_title = None\<rparr>]
       \<and> cm_mappings res 1 = Some \<lparr>a_type = KEEP_TRIAGE, a_target = None\<rparr>
       \<and> cm_mappings res 2 = Some \<lparr>a_type = TRIAGE_TO_COLUMN, a_target = Some ''c9''\<rparr>
       \<and> cm_mappings res 3 = Some \<lparr>a_type = TRIAGE_TO_COLUMN, a_target = Some ''c7''\<rparr>
       \<and> map rp_fizzy_column_id (cm_actions res) = [None, Some ''c9'', Some ''c7'']
       \<and> length (filter (to_create [doing_column]) (take 2 ?bcs)) = 0
       \<and> a_type (rp_action (cm_actions res ! 2)) = TRIAGE_TO_COLUMN"
    by code_simp
  with r have c: "cm_created res = [\<lparr>fz_id = Some ''c7'', fz_name = Some ''Review'', fz_title = None\<rparr>]"
    and z: "length (filter (to_create [doing_column]) (take 2 ?bcs)) = 0"
    and ty: "a_type (rp_action (cm_actions res ! 2)) = TRIAGE_TO_COLUMN"
    by simp_all
  have ids: "\<forall>c \<in> set [doing_column] \<union> set (cm_created res). fz_id c \<noteq> None"
    by (simp add: c doing_column_def)
  from th [of _ _ res] r
  have rep: "\<forall>j < length ?bcs. cm_actions res ! j =
                report_of False [doing_column] (cm_created res)
                  (length (filter (to_create [doing_column]) (take j ?bcs))) (?bcs ! j)"
    and len: "length (cm_actions res) = length ?bcs"
    by blast+
  from rep have "cm_actions res ! 2 =
                report_of False [doing_column] (cm_created res)
                  (length (filter (to_create [doing_column]) (take 2 ?bcs))) (?bcs ! 2)"
    by simp
  then have a: "cm_actions res ! 2 = report_of False [doing_column] (cm_created res) 0 review_column"
    by (simp only: z) simp
  from th [of _ _ res] r ids
  have "\<forall>rp \<in> set (cm_actions res).
          a_type (rp_action rp) = TRIAGE_TO_COLUMN \<longrightarrow> a_target (rp_action rp) \<noteq> None"
    by blast
  moreover have "cm_actions res ! 2 \<in> set (cm_actions res)"
    using len by simp
  ultimately have b: "a_target (rp_action (cm_actions res ! 2)) \<noteq> None"
    using ty by blast
  from ev r a b show ?thesis by simp
qed

text \<open>
  C7 as stated fails when the destination answers the creation of a column with neither a
  body nor a location: the client returns the empty object, and the placement recorded for
  the regular column has no target. The same holds for a matching destination column
  without an id; and when the creation of a column fails, the mapper throws and no action
  is recorded at all.
\<close>

theorem column_action_complete_counterexample:
  "(case mapColumns bare_createColumn False [triage_column, in_progress_column] [] of
      Inl error \<Rightarrow> False
    | Inr res \<Rightarrow>
        cm_mappings res (col_id in_progress_column)
          = Some \<lparr>a_type = TRIAGE_TO_COLUMN, a_target = None\<rparr>
        \<and> cm_created res = [empty_object])
   \<and> (case mapColumns bare_createColumn False [in_progress_column] [idless_column] of
        Inl error \<Rightarrow> False
      | Inr res \<Rightarrow>
          cm_mappings res (col_id in_progress_column)
            = Some \<lparr>a_type = TRIAGE_TO_COLUMN, a_target = None\<rparr>
          \<and> cm_created res = [])
   \<and> (case mapColumns failing_createColumn False [triage_column, in_progress_column] [] of
        Inl error \<Rightarrow> error = boom
      | Inr res \<Rightarrow> False)"
  by code_simp


section \<open>Orchestrator\<close>

lemma core_metadata [simp]: "core (m\<lparr>metadata := x\<rparr>) = core m"
  by (simp add: core_def)





lemma core_user_mappings: "core m' = core m \<Longrightarrow> user_mappings m' = user_mappings m"
  by (simp add: core_def)






lemma migrateCard_skip:
  "already_migrated m (show_nat (c_id bc)) \<Longrightarrow> \<not> updateExisting opts \<Longrightarrow>
   migrateCard e bc opts m w =
     (None, m\<lparr>progress := (progress m)\<lparr>skipped_cards := skipped_cards (progress m) + 1\<rparr>\<rparr>, w)"
  by (simp add: migrateCard_def)

lemma migrateCard_dry:
  "dryRun opts \<Longrightarrow> \<exists>m'. migrateCard e bc opts m w = (None, m', w)"
  by (simp add: migrateCard_def Let_def)











lemma process_batch_Cons:
  "process_batch e opts (bc # batch) st = process_batch e opts batch (process_card e opts bc st)"
  by (simp add: process_batch_def)



lemma saveMigrationState_effect:
  "saveMigrationState e m w = (r, m', w') \<Longrightarrow>
     core m' = core m \<and> calls w' = calls w \<and> r = writeFile_reply e (writes w)
     \<and> (r = None \<longrightarrow> disk w' = Some m')"
  by (auto simp add: saveMigrationState_def now_def Let_def core_def split: option.splits)













section \<open>Dry run\<close>

lemma process_card_dry:
  assumes "dryRun opts"
  shows "snd (snd (process_card e opts bc (pc, m, w))) = w"
proof -
  from migrateCard_dry [OF assms] obtain m' where
    "migrateCard e bc opts m w = (None, m', w)" by blast
  then show ?thesis by (simp add: process_card_def)
qed

lemma process_batch_dry:
  assumes "dryRun opts"
  shows "snd (snd (process_batch e opts batch st)) = snd (snd st)"
proof (induction batch arbitrary: st)
  case Nil
  then show ?case by (simp add: process_batch_def)
next
  case (Cons bc batch)
  obtain pc m w where st: "st = (pc, m, w)" by (cases st) auto
  show ?case
    using Cons [of "process_card e opts bc st"] process_card_dry [OF assms, of e bc pc m w]
    by (simp add: process_batch_Cons st)
qed

lemma process_batches_dry:
  assumes "dryRun opts"
  shows "process_batches e opts bs cards st = Some (r, st') \<Longrightarrow>
           calls (snd (snd st')) = calls (snd (snd st))"
proof (induction "length cards" arbitrary: cards st rule: less_induct)
  case less
  show ?case
  proof (cases "cards = [] \<or> bs = 0")
    case True
    with less.prems show ?thesis
      by (subst (asm) process_batches.simps) (auto split: if_splits)
  next
    case False
    obtain pc1 m1 w1 where b: "process_batch e opts (take bs cards) st = (pc1, m1, w1)"
      by (cases "process_batch e opts (take bs cards) st") auto
    obtain r2 m2 w2 where s: "saveMigrationState e m1 w1 = (r2, m2, w2)"
      by (cases "saveMigrationState e m1 w1") auto
    have w1: "w1 = snd (snd st)"
      using process_batch_dry [OF assms, of e "take bs cards" st] b by simp
    have w2: "calls w2 = calls w1" using saveMigrationState_effect [OF s] by simp
    show ?thesis
    proof (cases r2)
      case None
      with less.prems False b s
      have rec: "process_batches e opts bs (drop bs cards) (pc1, m2, w2) = Some (r, st')"
        by (subst (asm) process_batches.simps) simp
      have "length (drop bs cards) < length cards" using False by simp
      from less.hyps [OF this rec] w1 w2 show ?thesis by simp
    next
      case (Some err)
      with less.prems False b s have "st' = (pc1, m2, w2)"
        by (subst (asm) process_batches.simps) simp
      with w1 w2 show ?thesis by simp
    qed
  qed
qed

lemma process_columns_dry:
  assumes "dryRun opts"
  shows "process_columns e opts bs columns st = Some (r, m', w') \<Longrightarrow>
           filter mutating (calls w') = filter mutating (calls (snd (snd st)))"
proof (induction columns arbitrary: st)
  case Nil
  then show ?case by (cases st) auto
next
  case (Cons col columns)
  obtain pc m w where st: "st = (pc, m, w)" by (cases st) auto
  let ?w = "invoke (GetAllCardsFromColumn (col_id col)) w"
  have fw: "filter mutating (calls ?w) = filter mutating (calls w)"
    by (simp add: invoke_def)
  show ?case
  proof (cases "getAllCardsFromColumn_reply e (calls ?w)")
    case (Inl err)
    with Cons.prems fw show ?thesis by (simp add: st Let_def)
  next
    case (Inr cards)
    show ?thesis
    proof (cases "process_batches e opts bs cards (pc, m, ?w)")
      case None
      with Cons.prems Inr show ?thesis by (simp add: st Let_def)
    next
      case (Some res)
      obtain r1 st1 where res: "res = (r1, st1)" by (cases res) auto
      have c: "calls (snd (snd st1)) = calls ?w"
        using process_batches_dry [OF assms Some [unfolded res]] by simp
      show ?thesis
      proof (cases r1)
        case None
        with Cons.prems Inr Some res
        have "process_columns e opts bs columns st1 = Some (r, m', w')"
          by (simp add: st Let_def)
        from Cons.IH [OF this] c fw show ?thesis by (simp add: st)
      next
        case (Some err)
        with Cons.prems Inr \<open>process_batches e opts bs cards (pc, m, ?w) = Some res\<close> res
        have "w' = snd (snd st1)" by (auto simp add: st Let_def)
        with c fw show ?thesis by (simp add: st)
      qed
    qed
  qed
qed

text \<open>
  C8. In a dry run \<open>migrateCard\<close> returns without an error and leaves the world as it was,
  so no call at all is made for a record; the whole card phase adds no mutating call; and
  the column mapper makes no creation call, creates nothing, and still reports every source
  column, a regular one without a matching destination column with the placeholder id
  \<open>dry-run-<source column id>\<close>, in an action table that has an entry for every source
  column.
\<close>

theorem dry_run_frame:
  "(dryRun opts \<longrightarrow>
      fst (migrateCard e bc opts m w) = None \<and> snd (snd (migrateCard e bc opts m w)) = w
      \<and> (\<forall>r m' w'. phase4_cards e opts batchSize columns m w = Some (r, m', w') \<longrightarrow>
            filter mutating (calls w') = filter mutating (calls w)))
   \<and> (\<exists>res. mapColumns reply True bcs fzs = Inr res \<and> cm_calls res = [] \<and> cm_created res = []
          \<and> list_all2 (dry_ok fzs) bcs (cm_actions res)
          \<and> dom (cm_mappings res) = col_id ` set bcs)"
proof (intro conjI impI allI)
  assume d: "dryRun opts"
  from migrateCard_dry [OF d, of e bc m w]
  show "fst (migrateCard e bc opts m w) = None" "snd (snd (migrateCard e bc opts m w)) = w"
    by auto
  fix r m' w'
  assume p: "phase4_cards e opts batchSize columns m w = Some (r, m', w')"
  obtain ex w0 where f: "findExistingMigratedCards e w = (ex, w0)"
    by (cases "findExistingMigratedCards e w") auto
  have "calls w0 = calls w @ [GetCards]"
    using f by (auto simp add: findExistingMigratedCards_def invoke_def Let_def split: sum.splits)
  then have "filter mutating (calls w0) = filter mutating (calls w)" by simp
  moreover from p f
  have "filter mutating (calls w') = filter mutating (calls w0)"
    using process_columns_dry [OF d, of e batchSize columns _ r m' w']
    by (simp add: phase4_cards_def)
  ultimately show "filter mutating (calls w') = filter mutating (calls w)" by simp
next
  from mapColumns_loop_dry [of reply fzs bcs
      "\<lparr>cm_mappings = Map.empty, cm_actions = [], cm_created = [], cm_calls = []\<rparr>"]
  show "\<exists>res. mapColumns reply True bcs fzs = Inr res \<and> cm_calls res = [] \<and> cm_created res = []
          \<and> list_all2 (dry_ok fzs) bcs (cm_actions res)
          \<and> dom (cm_mappings res) = col_id ` set bcs"
    by (auto simp add: mapColumns_def)
qed


theorem dry_run_frame_witness:
  "dryRun dry_opts
   \<and> fst (migrateCard clean_env (plain_card 3 ''c'' 2) dry_opts fresh_migration blank_world) = None
   \<and> (case phase4_cards clean_env dry_opts 10 [triage_column, in_progress_column]
              fresh_migration blank_world of
         None \<Rightarrow> False
       | Some (r, m', w') \<Rightarrow>
           r = None \<and> filter mutating (calls w') = []
           \<and> calls w' = [GetCards, GetAllCardsFromColumn 1, GetAllCardsFromColumn 2])
   \<and> (case mapColumns bare_createColumn True [triage_column, in_progress_column] [] of
         Inl error \<Rightarrow> False
       | Inr res \<Rightarrow>
           cm_calls res = [] \<and> cm_created res = [] \<and>
           cm_mappings res 2
             = Some \<lparr>a_type = TRIAGE_TO_COLUMN, a_target = Some ''dry-run-2''\<rparr>)"
proof -
  let ?cols = "[triage_column, in_progress_column]"
  have d: "dryRun dry_opts" by (simp add: dry_opts_def)
  note th = dry_run_frame [where opts = dry_opts and e = clean_env
      and bc = "plain_card 3 ''c'' 2" and m = fresh_migration and w = blank_world
      and batchSize = 10 and columns = "?cols" and reply = bare_createColumn
      and bcs = "?cols" and fzs = "[]"]
  have p: "case phase4_cards clean_env dry_opts 10 ?cols fresh_migration blank_world of
             None \<Rightarrow> False
           | Some (r, m', w') \<Rightarrow>
               r = None \<and> calls w' = [GetCards, GetAllCardsFromColumn 1, GetAllCardsFromColumn 2]"
    by code_simp
  then obtain r m' w' where
    ph: "phase4_cards clean_env dry_opts 10 ?cols fresh_migration blank_world = Some (r, m', w')"
    and r: "r = None"
    and c: "calls w' = [GetCards, GetAllCardsFromColumn 1, GetAllCardsFromColumn 2]"
    by (auto split: option.splits)
  from th d ph have "filter mutating (calls w') = filter mutating (calls blank_world)"
    by blast
  then have f: "filter mutating (calls w') = []" by (simp add: blank_world_def)
  from th obtain res where
    mc: "mapColumns bare_createColumn True ?cols [] = Inr res"
    and mr: "cm_calls res = []" "cm_created res = []"
    by blast
  have "case mapColumns bare_createColumn True ?cols [] of
          Inl error \<Rightarrow> False
        | Inr res \<Rightarrow>
            cm_mappings res 2
              = Some \<lparr>a_type = TRIAGE_TO_COLUMN, a_target = Some ''dry-run-2''\<rparr>"
    by code_simp
  with mc have mm: "cm_mappings res 2
      = Some \<lparr>a_type = TRIAGE_TO_COLUMN, a_target = Some ''dry-run-2''\<rparr>"
    by simp
  from th d have "fst (migrateCard clean_env (plain_card 3 ''c'' 2) dry_opts fresh_migration
      blank_world) = None"
    by blast
  with d ph r c f mc mr mm show ?thesis by simp
qed

section \<open>Re-run\<close>

lemma process_card_skipped:
  assumes "already_migrated m (show_nat (c_id bc))" and "\<not> updateExisting opts"
  shows "process_card e opts bc (pc, m, w) =
           (pc + 1,
            m\<lparr>progress := (progress m)
                 \<lparr>skipped_cards := skipped_cards (progress m) + 1,
                  successful_cards := successful_cards (progress m) + 1,
                  processed_cards := pc + 1\<rparr>\<rparr>,
            w)"
  using assms by (simp add: process_card_def migrateCard_skip)

text \<open>
  C1 on the code. The clean-run scenario run again against the same board, without the
  update-existing option: the card phase ends without an error and without a creation
  call, and the counters show 5 skipped records and also 5 successful ones, since the
  caller of \<open>migrateCard\<close> counts every return without an error as a success.
\<close>

theorem rerun_counts_skipped_as_successful:
  "case phase4_cards rerun_env run_opts 10 [triage_column, in_progress_column]
          fresh_migration blank_world of
     None \<Rightarrow> False
   | Some (r, m', w') \<Rightarrow>
       r = None \<and> skipped_cards (progress m') = 5 \<and> successful_cards (progress m') = 5
       \<and> failed_cards (progress m') = 0 \<and> processed_cards (progress m') = 5
       \<and> calls w' = [GetCards, GetAllCardsFromColumn 1, GetAllCardsFromColumn 2]"
  by code_simp

lemma clean_run:
  "case phase4_cards clean_env run_opts 10 [triage_column, in_progress_column]
          fresh_migration blank_world of
     None \<Rightarrow> False
   | Some (r, m', w') \<Rightarrow>
       r = None \<and> skipped_cards (progress m') = 0 \<and> successful_cards (progress m') = 5
       \<and> failed_cards (progress m') = 0 \<and> length (filter mutating (calls w')) = 5"
  by code_simp


section \<open>Retry wrapper\<close>

lemma withRetry_non_retryable:
  assumes "fn 1 = Inl error" and "e_response error = Some response"
    and "rv_status response = Some s" and "400 \<le> s" and "s < 500" and "s \<noteq> 429"
    and "1 \<le> maxRetries"
  shows "withRetry_opts fn maxRetries baseDelay maxDelay
         = \<lparr>rr_outcome = Inl (Thrown error), rr_invocations = 1, rr_sleeps = []\<rparr>"
  unfolding withRetry_opts_def using assms
  by (subst withRetry_loop.simps) (simp add: Let_def)

text \<open>
  C4 on the code, at a 404 answer. Thrown as the HTTP library reports it, the error is
  passed on at once: one invocation and no sleep. Wrapped by the response interceptor of a
  client, as every error of a client request is, it has its status in \<open>statusCode\<close> and
  the body in \<open>response\<close>; the retry wrapper finds no status there and retries with
  backoff: three invocations and sleeps of 1000 and 2000 ms.
\<close>

theorem wrapped_4xx_is_retried:
  "withRetry (\<lambda>k. case always_not_found k of Inl error \<Rightarrow> Inl (raw_error error) | Inr v \<Rightarrow> Inr v)
     = \<lparr>rr_outcome = Inl (Thrown (raw_error not_found)), rr_invocations = 1, rr_sleeps = []\<rparr>
   \<and> fizzy_request always_not_found
     = \<lparr>rr_outcome = Inl (Thrown (ApiError not_found)), rr_invocations = 3,
        rr_sleeps = [1000, 2000]\<rparr>
   \<and> basecamp_request True (\<lambda>k. RefreshFailed) always_not_found
     = \<lparr>rr_outcome = Inl (Thrown (ApiError not_found)), rr_invocations = 3,
        rr_sleeps = [1000, 2000]\<rparr>
   \<and> e_statusCode (ApiError not_found) = Some 404"
  by code_simp

end
